theory Spec2Isabelle
  imports Main "HOL-Library.AList" "HOL-Library.Sublist"
begin

section \<open>Values, errors and the external collaborators\<close>

text \<open>
  A shallow embedding of \<^verbatim>\<open>packages/@tinacms/graphql/src/database/index.ts\<close>
  (class \<^verbatim>\<open>Database\<close>). A document payload is a JavaScript object holding JSON
  values; it is modelled as a finite map from property names to values, a property
  that is absent (or \<^verbatim>\<open>undefined\<close>) being \<open>None\<close>.
\<close>

datatype jvalue =
    JNull
  | JBool bool
  | JNum int
  | JStr string
  | JList "jvalue list"
  | JObj "(string \<times> jvalue) list"

type_synonym payload = "string \<rightharpoonup> jvalue"

text \<open>
  Everything the code throws is a value of \<open>error\<close>. \<open>ThrownValue\<close> stands for a
  thrown value that is not an instance of \<^verbatim>\<open>Error\<close> (JavaScript can throw anything);
  every other constructor is an \<^verbatim>\<open>Error\<close> object.
\<close>

datatype error =
    JsError string
  | LevelNotFound
  | TinaFetchError string error string "string option"
  | TinaQueryError error string string
  | ThrownValue string

fun instanceof_Error :: "error \<Rightarrow> bool" where
  "instanceof_Error (ThrownValue v) = False"
| "instanceof_Error e = True"

text \<open>JavaScript truthiness of an optional number and of an optional string.\<close>

fun truthy_num :: "int option \<Rightarrow> bool" where
  "truthy_num None = False"
| "truthy_num (Some n) = (n \<noteq> 0)"

fun truthy_str :: "string option \<Rightarrow> bool" where
  "truthy_str None = False"
| "truthy_str (Some s) = (s \<noteq> [])"

subsection \<open>Strings and paths\<close>

text \<open>\<^verbatim>\<open>String.prototype.includes\<close>: the argument occurs as a contiguous substring.\<close>

fun str_includes :: "string \<Rightarrow> string \<Rightarrow> bool" where
  "str_includes [] sub = (sub = [])"
| "str_includes (c # cs) sub = (prefix sub (c # cs) \<or> str_includes cs sub)"

text \<open>
  \<^verbatim>\<open>s.replace(pat, '')\<close> with a string pattern: the first occurrence of \<open>pat\<close> is
  removed.
\<close>

fun remove_first :: "string \<Rightarrow> string \<Rightarrow> string" where
  "remove_first pat [] = []"
| "remove_first pat (c # cs) =
     (if prefix pat (c # cs) then drop (length pat) (c # cs)
      else c # remove_first pat cs)"

text \<open>\<^verbatim>\<open>s.replace(/^\/|\/$/g, '')\<close>: one leading and one trailing slash are removed.\<close>

definition strip_slashes :: "string \<Rightarrow> string" where
  "strip_slashes s =
     (let t = (case s of [] \<Rightarrow> [] | c # cs \<Rightarrow> if c = CHR ''/'' then cs else c # cs)
      in if t \<noteq> [] \<and> last t = CHR ''/'' then butlast t else t)"

text \<open>
  Node's \<^verbatim>\<open>path.extname\<close>: the text from the last dot of the last path segment on
  (trailing slashes set aside); empty when that segment has no dot or only a
  leading one, and for the segment \<^verbatim>\<open>..\<close>.
\<close>

definition basename :: "string \<Rightarrow> string" where
  "basename p =
     rev (takeWhile (\<lambda>c. c \<noteq> CHR ''/'') (dropWhile (\<lambda>c. c = CHR ''/'') (rev p)))"

definition extname :: "string \<Rightarrow> string" where
  "extname p =
     (let b = basename p;
          e = rev (takeWhile (\<lambda>c. c \<noteq> CHR ''.'') (rev b))
      in if CHR ''.'' \<notin> set b \<or> length e + 1 = length b \<or> b = ''..'' then []
         else CHR ''.'' # e)"

text \<open>
  Modelled from the spec: \<^verbatim>\<open>normalizePath\<close> lives in \<^verbatim>\<open>./util\<close>, which is not part of
  the sources at hand. The spec keys primary records by the normalized path and calls
  a document path a forward-slashed string: every backslash becomes a forward slash.
\<close>

definition normalizePath :: "string \<Rightarrow> string" where
  "normalizePath p = map (\<lambda>c. if c = CHR 0x5C then CHR ''/'' else c) p"

definition SYSTEM_FILES :: "string list" where
  "SYSTEM_FILES = [''_schema'', ''_graphql'', ''_lookup'']"

definition GENERATED_FOLDER :: string where
  "GENERATED_FOLDER = ''.tina/__generated__''"

text \<open>
  Modelled from the spec: the constants \<^verbatim>\<open>ROOT_PREFIX\<close>, \<^verbatim>\<open>DEFAULT_COLLECTION_SORT_KEY\<close>
  and \<^verbatim>\<open>DEFAULT_NUMERIC_LPAD\<close> are imported from \<^verbatim>\<open>./level\<close> and \<^verbatim>\<open>./datalayer\<close>, which
  are not part of the sources at hand. The spec gives them as the root sublevel
  \<^verbatim>\<open>~\<close>, the default sort key \<^verbatim>\<open>__filepath__\<close> and the default numeric width 4.
\<close>

definition ROOT_PREFIX :: string where
  "ROOT_PREFIX = ''~''"

definition DEFAULT_COLLECTION_SORT_KEY :: string where
  "DEFAULT_COLLECTION_SORT_KEY = ''__filepath__''"

definition DEFAULT_NUMERIC_LPAD :: nat where
  "DEFAULT_NUMERIC_LPAD = 4"

section \<open>The query engine\<close>

subsection \<open>Effective limit\<close>

text \<open>
  \<^verbatim>\<open>let limit = 50; if (first) { limit = first } else if (last) { limit = last }\<close>
\<close>

definition query_limit :: "int option \<Rightarrow> int option \<Rightarrow> int" where
  "query_limit firstN lastN =
     (case (if truthy_num firstN then firstN
            else if truthy_num lastN then lastN else None) of
        Some n \<Rightarrow> n
      | None \<Rightarrow> 50)"

text \<open>The limit in the spec's words, \<^verbatim>\<open>first ?? last ?? 50\<close>.\<close>

definition spec_limit :: "int option \<Rightarrow> int option \<Rightarrow> int" where
  "spec_limit firstN lastN =
     (case firstN of
        Some f \<Rightarrow> f
      | None \<Rightarrow> (case lastN of Some l \<Rightarrow> l | None \<Rightarrow> 50))"

subsection \<open>Iteration bounds\<close>

record iterator_query =
  gt :: "string option"
  gte :: "string option"
  lt :: "string option"
  lte :: "string option"
  reverse :: bool

record filter_suffixes =
  left :: "string option"
  right :: "string option"

text \<open>
  \<^verbatim>\<open>if (after) { query.gt = atob(after) } else if (before) { query.lt = atob(before) }\<close>.
  The decoder \<^verbatim>\<open>atob\<close> comes from \<^verbatim>\<open>../util\<close> and is a parameter.
\<close>

definition cursor_bounds ::
  "(string \<Rightarrow> string) \<Rightarrow> string option \<Rightarrow> string option \<Rightarrow> iterator_query \<Rightarrow> iterator_query"
where
  "cursor_bounds atob after before q =
     (if truthy_str after then q\<lparr>gt := map_option atob after\<rparr>
      else if truthy_str before then q\<lparr>lt := map_option atob before\<rparr>
      else q)"

text \<open>
  \<^verbatim>\<open>if (!query.gt && !query.gte) query.gte = filterSuffixes?.left ? filterSuffixes.left : ''\<close>
  and
  \<^verbatim>\<open>if (!query.lt && !query.lte) query.lte = filterSuffixes?.right ? `${filterSuffixes.right}\xFF` : '\xFF'\<close>.
\<close>

definition suffix_left :: "filter_suffixes option \<Rightarrow> string" where
  "suffix_left fs =
     (case fs of
        None \<Rightarrow> []
      | Some f \<Rightarrow>
          (case left f of
             None \<Rightarrow> []
           | Some l \<Rightarrow> (if l \<noteq> [] then l else [])))"

definition suffix_right :: "filter_suffixes option \<Rightarrow> string" where
  "suffix_right fs =
     (case fs of
        None \<Rightarrow> [CHR 0xFF]
      | Some f \<Rightarrow>
          (case right f of
             None \<Rightarrow> [CHR 0xFF]
           | Some r \<Rightarrow> (if r \<noteq> [] then r @ [CHR 0xFF] else [CHR 0xFF])))"

definition prefix_bounds :: "filter_suffixes option \<Rightarrow> iterator_query \<Rightarrow> iterator_query" where
  "prefix_bounds fs q =
     (let q1 = (if \<not> truthy_str (gt q) \<and> \<not> truthy_str (gte q)
                then q\<lparr>gte := Some (suffix_left fs)\<rparr> else q)
      in if \<not> truthy_str (lt q1) \<and> \<not> truthy_str (lte q1)
         then q1\<lparr>lte := Some (suffix_right fs)\<rparr> else q1)"

definition query_bounds ::
  "(string \<Rightarrow> string) \<Rightarrow> string option \<Rightarrow> string option \<Rightarrow> int option \<Rightarrow>
   filter_suffixes option \<Rightarrow> iterator_query"
where
  "query_bounds atob after before lastN fs =
     prefix_bounds fs
       (cursor_bounds atob after before
          \<lparr>gt = None, gte = None, lt = None, lte = None, reverse = truthy_num lastN\<rparr>)"

subsection \<open>Iteration with the limit check\<close>

record page_state =
  edges :: "(string \<times> string) list"
  startKey :: string
  endKey :: string
  hasPreviousPage :: bool
  hasNextPage :: bool

definition initial_page :: page_state where
  "initial_page =
     \<lparr>edges = [], startKey = [], endKey = [], hasPreviousPage = False, hasNextPage = False\<rparr>"

text \<open>
  The \<^verbatim>\<open>for await\<close> loop of \<^verbatim>\<open>query\<close> over the pairs the iterator yields. Matching a key
  against the index pattern and applying the item filter (which may read the primary
  record and so may throw) are one parameter \<open>admit\<close>: it gives the file path of a
  pair that passes, \<open>None\<close> for a pair the loop skips.
\<close>

fun iterate ::
  "(string \<times> 'v \<Rightarrow> error + string option) \<Rightarrow> int \<Rightarrow> bool \<Rightarrow> (string \<times> 'v) list \<Rightarrow>
   page_state \<Rightarrow> error + page_state"
where
  "iterate admit limit rv [] st = Inr st"
| "iterate admit limit rv (kv # rest) st =
     (case admit kv of
        Inl e \<Rightarrow> Inl e
      | Inr None \<Rightarrow> iterate admit limit rv rest st
      | Inr (Some filepath) \<Rightarrow>
          (if limit \<noteq> - 1 \<and> limit \<le> int (length (edges st)) then
             Inr (if rv then st\<lparr>hasPreviousPage := True\<rparr> else st\<lparr>hasNextPage := True\<rparr>)
           else
             iterate admit limit rv rest
               (st\<lparr>startKey := (if startKey st \<noteq> [] then startKey st else fst kv),
                   endKey := fst kv,
                   edges := edges st @ [(fst kv, filepath)]\<rparr>)))"

text \<open>The pairs the loop does not skip, in iteration order.\<close>

fun admitted :: "(string \<times> 'v \<Rightarrow> error + string option) \<Rightarrow> (string \<times> 'v) list \<Rightarrow> (string \<times> string) list" where
  "admitted admit [] = []"
| "admitted admit (kv # rest) =
     (case admit kv of
        Inr (Some filepath) \<Rightarrow> (fst kv, filepath) # admitted admit rest
      | _ \<Rightarrow> admitted admit rest)"

subsection \<open>Hydration\<close>

text \<open>
  Modelled from the spec: \<^verbatim>\<open>sequential\<close> lives in \<^verbatim>\<open>../util\<close>, which is not part of the
  sources at hand. The spec maps each edge through the hydrator after the iteration;
  the items are awaited one after the other, so the first failure ends the run.
\<close>

fun sequential :: "('a \<Rightarrow> error + 'b) \<Rightarrow> 'a list \<Rightarrow> error + 'b list" where
  "sequential f [] = Inr []"
| "sequential f (x # xs) =
     (case f x of
        Inl e \<Rightarrow> Inl e
      | Inr y \<Rightarrow> (case sequential f xs of Inl e \<Rightarrow> Inl e | Inr ys \<Rightarrow> Inr (y # ys)))"

text \<open>
  The callback given to \<^verbatim>\<open>sequential\<close> in \<^verbatim>\<open>query\<close>: the hydrator's failure is wrapped
  when it is an \<^verbatim>\<open>Error\<close> and the path does not include
  \<^verbatim>\<open>.tina/__generated__/_graphql.json\<close>, and rethrown as it is otherwise. The encoder
  \<^verbatim>\<open>btoa\<close> comes from \<^verbatim>\<open>../util\<close> and is a parameter.
\<close>

definition hydrate_edge ::
  "(string \<Rightarrow> string) \<Rightarrow> (string \<Rightarrow> error + 'n) \<Rightarrow> string \<Rightarrow> string \<times> string \<Rightarrow>
   error + ('n \<times> string)"
where
  "hydrate_edge btoa hydrator collection edge =
     (case hydrator (snd edge) of
        Inr node \<Rightarrow> Inr (node, btoa (fst edge))
      | Inl err \<Rightarrow>
          (if instanceof_Error err \<and>
              \<not> str_includes (snd edge) ''.tina/__generated__/_graphql.json''
           then Inl (TinaQueryError err (snd edge) collection)
           else Inl err))"

definition hydrate_edges ::
  "(string \<Rightarrow> string) \<Rightarrow> (string \<Rightarrow> error + 'n) \<Rightarrow> string \<Rightarrow> (string \<times> string) list \<Rightarrow>
   error + ('n \<times> string) list"
where
  "hydrate_edges btoa hydrator collection es =
     sequential (hydrate_edge btoa hydrator collection) es"

text \<open>
  The generated config files in the spec's words: the three records kept under
  \<^verbatim>\<open>.tina/__generated__/\<close>.
\<close>

definition generated_config_files :: "string list" where
  "generated_config_files =
     [''.tina/__generated__/_graphql.json'',
      ''.tina/__generated__/_schema.json'',
      ''.tina/__generated__/_lookup.json'']"

definition names_generated_config_file :: "string \<Rightarrow> bool" where
  "names_generated_config_file p = (\<exists>g \<in> set generated_config_files. str_includes p g)"

section \<open>Status reporting\<close>

datatype index_status_event = Inprogress | Complete | Failed error

text \<open>
  The status callback is a function of the caller's; it may change the caller's world
  \<open>'w\<close> and it may throw. \<open>emit\<close> calls it and records the event in a trace, so that the
  events of a run can be counted.
\<close>

type_synonym 'w callback = "index_status_event \<Rightarrow> 'w \<Rightarrow> (error + unit) \<times> 'w"

definition emit ::
  "'w callback \<Rightarrow> index_status_event \<Rightarrow> index_status_event list \<times> 'w \<Rightarrow>
   (error + unit) \<times> (index_status_event list \<times> 'w)"
where
  "emit cb ev s = (case cb ev (snd s) of (r, w') \<Rightarrow> (r, (fst s @ [ev], w')))"

text \<open>The body \<^verbatim>\<open>fn\<close> works on the world and emits nothing.\<close>

definition run_body ::
  "('w \<Rightarrow> (error + unit) \<times> 'w) \<Rightarrow> index_status_event list \<times> 'w \<Rightarrow>
   (error + unit) \<times> (index_status_event list \<times> 'w)"
where
  "run_body fn s = (case fn (snd s) of (r, w') \<Rightarrow> (r, (fst s, w')))"

text \<open>
  \<^verbatim>\<open>
  await this.indexStatusCallback({ status: 'inprogress' })
  try {
    await fn()
    await this.indexStatusCallback({ status: 'complete' })
  } catch (error) {
    await this.indexStatusCallback({ status: 'failed', error })
    throw error
  }
  \<close>
\<close>

definition indexStatusCallbackWrapper ::
  "'w callback \<Rightarrow> ('w \<Rightarrow> (error + unit) \<times> 'w) \<Rightarrow> index_status_event list \<times> 'w \<Rightarrow>
   (error + unit) \<times> (index_status_event list \<times> 'w)"
where
  "indexStatusCallbackWrapper cb fn s =
     (case emit cb Inprogress s of
        (Inl e, s1) \<Rightarrow> (Inl e, s1)
      | (Inr u, s1) \<Rightarrow>
          (case (case run_body fn s1 of
                   (Inl e, s2) \<Rightarrow> (Inl e, s2)
                 | (Inr u, s2) \<Rightarrow> emit cb Complete s2) of
             (Inr u, s3) \<Rightarrow> (Inr (), s3)
           | (Inl err, s3) \<Rightarrow>
               (case emit cb (Failed err) s3 of
                  (Inl e, s4) \<Rightarrow> (Inl e, s4)
                | (Inr u, s4) \<Rightarrow> (Inl err, s4))))"

text \<open>
  The three long-running operations. Each hands its work to the wrapper as the body;
  the two incremental ones flush the rest of their operation buffer after the wrapper
  has returned. The bodies and the flush are parameters here.
\<close>

definition indexContent ::
  "'w callback \<Rightarrow> ('w \<Rightarrow> (error + unit) \<times> 'w) \<Rightarrow> index_status_event list \<times> 'w \<Rightarrow>
   (error + unit) \<times> (index_status_event list \<times> 'w)"
where
  "indexContent cb body s = indexStatusCallbackWrapper cb body s"

definition indexContentByPaths ::
  "'w callback \<Rightarrow> ('w \<Rightarrow> (error + unit) \<times> 'w) \<Rightarrow> ('w \<Rightarrow> (error + unit) \<times> 'w) \<Rightarrow>
   index_status_event list \<times> 'w \<Rightarrow> (error + unit) \<times> (index_status_event list \<times> 'w)"
where
  "indexContentByPaths cb body flush s =
     (case indexStatusCallbackWrapper cb body s of
        (Inl e, s1) \<Rightarrow> (Inl e, s1)
      | (Inr u, s1) \<Rightarrow> run_body flush s1)"

definition deleteContentByPaths ::
  "'w callback \<Rightarrow> ('w \<Rightarrow> (error + unit) \<times> 'w) \<Rightarrow> ('w \<Rightarrow> (error + unit) \<times> 'w) \<Rightarrow>
   index_status_event list \<times> 'w \<Rightarrow> (error + unit) \<times> (index_status_event list \<times> 'w)"
where
  "deleteContentByPaths cb body flush s =
     (case indexStatusCallbackWrapper cb body s of
        (Inl e, s1) \<Rightarrow> (Inl e, s1)
      | (Inr u, s1) \<Rightarrow> run_body flush s1)"

text \<open>Status callbacks used in the examples below.\<close>

definition quiet_callback :: "unit callback" where
  "quiet_callback ev w = (Inr (), w)"

definition callback_failing_on_complete :: "unit callback" where
  "callback_failing_on_complete ev w =
     (if ev = Complete then (Inl (JsError ''status endpoint unreachable''), w) else (Inr (), w))"

definition ok_body :: "unit \<Rightarrow> (error + unit) \<times> unit" where
  "ok_body w = (Inr (), w)"

definition failing_body :: "unit \<Rightarrow> (error + unit) \<times> unit" where
  "failing_body w = (Inl (JsError ''Unable to seed''), w)"

section \<open>The schema and the index definitions\<close>

text \<open>
  The enriched schema comes from the schema tools, outside this module. The model
  keeps the attributes the database reads: of a field its name, its type tag, the
  optional \<^verbatim>\<open>indexed\<close> flag and the \<^verbatim>\<open>isBody\<close> mark; of a collection its name, its
  path, its optional format, its optional field list, whether it has templates, and
  its optional list of declared indexes.
\<close>

record field_def =
  field_name :: string
  field_type :: string
  field_indexed :: "bool option"
  field_isBody :: bool

record index_decl =
  index_name :: string
  index_field_names :: "string list"

record template =
  template_namespace :: "string list"
  template_fields :: "field_def list"

record collection =
  coll_name :: string
  coll_path :: string
  coll_format :: "string option"
  coll_fields :: "field_def list option"
  coll_templates :: bool
  coll_indexes :: "index_decl list option"

datatype template_info = ObjectTemplate template | UnionTemplates "template list"

text \<open>The methods of \<^verbatim>\<open>TinaSchema\<close> that the database calls.\<close>

record tina_schema =
  getCollections :: "collection list"
  getCollectionByFullPath :: "string \<Rightarrow> collection option"
  getTemplatesForCollectable :: "collection option \<Rightarrow> error + template_info"
  getCollectionAndTemplateByFullPath :: "string \<Rightarrow> string option \<Rightarrow> error + collection \<times> template"

record index_field =
  idx_name :: string
  idx_type :: "string option"
  idx_pad :: "(string \<times> nat) option"

record index_definition =
  idx_fields :: "index_field list"

type_synonym index_table = "(string \<times> index_definition) list"

text \<open>
  The table of one collection is a JavaScript object filled by assignments; it is an
  association list filled by \<open>AList.update\<close>, which replaces the value of a key that
  is present and appends a new key otherwise.
\<close>

definition field_skipped :: "field_def \<Rightarrow> bool" where
  "field_skipped f = (field_indexed f = Some False \<or> field_type f = ''object'')"

definition field_index :: "field_def \<Rightarrow> index_definition" where
  "field_index f =
     \<lparr>idx_fields =
        [\<lparr>idx_name = field_name f,
          idx_type = Some (field_type f),
          idx_pad = (if field_type f = ''number'' then Some (''0'', DEFAULT_NUMERIC_LPAD)
                     else None)\<rparr>]\<rparr>"

definition add_field_indexes :: "field_def list \<Rightarrow> index_table \<Rightarrow> index_table" where
  "add_field_indexes fs t =
     fold (\<lambda>f t'. if field_skipped f then t' else AList.update (field_name f) (field_index f) t')
       fs t"

text \<open>
  A declared index looks the type of each of its fields up in \<^verbatim>\<open>collection.fields\<close>;
  with no field list that lookup is a \<^verbatim>\<open>TypeError\<close>.
\<close>

definition declared_index :: "field_def list option \<Rightarrow> index_decl \<Rightarrow> error + index_definition" where
  "declared_index flds ix =
     (if index_field_names ix = [] then Inr \<lparr>idx_fields = []\<rparr>
      else
        (case flds of
           None \<Rightarrow> Inl (JsError ''TypeError: Cannot read properties of undefined (reading find)'')
         | Some fs \<Rightarrow>
             Inr \<lparr>idx_fields =
                    map (\<lambda>n. \<lparr>idx_name = n,
                              idx_type = map_option field_type (find (\<lambda>f. n = field_name f) fs),
                              idx_pad = None\<rparr>)
                      (index_field_names ix)\<rparr>))"

fun add_declared_indexes ::
  "field_def list option \<Rightarrow> index_decl list \<Rightarrow> index_table \<Rightarrow> error + index_table"
where
  "add_declared_indexes flds [] t = Inr t"
| "add_declared_indexes flds (ix # ixs) t =
     (case declared_index flds ix of
        Inl e \<Rightarrow> Inl e
      | Inr d \<Rightarrow> add_declared_indexes flds ixs (AList.update (index_name ix) d t))"

definition collection_indexes :: "collection \<Rightarrow> error + index_table" where
  "collection_indexes c =
     (let t0 = [(DEFAULT_COLLECTION_SORT_KEY, \<lparr>idx_fields = []\<rparr>)];
          t1 = (case coll_fields c of None \<Rightarrow> t0 | Some fs \<Rightarrow> add_field_indexes fs t0)
      in case coll_indexes c of
           None \<Rightarrow> Inr t1
         | Some ixs \<Rightarrow> add_declared_indexes (coll_fields c) ixs t1)"

text \<open>The field list and the declared indexes of a collection, empty when absent.\<close>

definition fields_of :: "collection \<Rightarrow> field_def list" where
  "fields_of c = (case coll_fields c of None \<Rightarrow> [] | Some fs \<Rightarrow> fs)"

definition declared_of :: "collection \<Rightarrow> index_decl list" where
  "declared_of c = (case coll_indexes c of None \<Rightarrow> [] | Some ixs \<Rightarrow> ixs)"

text \<open>
  The loop over the collections assigns \<^verbatim>\<open>this.collectionIndexDefinitions\<close> once per
  collection, so a failure part-way leaves the tables built so far in the cache.
\<close>

fun index_all_collections ::
  "collection list \<Rightarrow> (string \<times> index_table) list option \<Rightarrow>
   (error + unit) \<times> (string \<times> index_table) list option"
where
  "index_all_collections [] t = (Inr (), t)"
| "index_all_collections (c # cs) t =
     (case collection_indexes c of
        Inl e \<Rightarrow> (Inl e, t)
      | Inr defs \<Rightarrow>
          index_all_collections cs
            (Some (AList.update (coll_name c) defs (case t of None \<Rightarrow> [] | Some t' \<Rightarrow> t'))))"

section \<open>The database\<close>

text \<open>
  Modelled from the spec: the key-value store \<^verbatim>\<open>Level\<close> and its operation types live
  in \<^verbatim>\<open>./level\<close>, which is not part of the sources at hand. The spec describes an
  ordered store with nested sublevels, \<^verbatim>\<open>get\<close> failing with a not-found error
  distinguishable from others, and \<^verbatim>\<open>batch\<close> applying a list of put and del
  operations, each naming its sublevel. A sublevel is the list of its nested names;
  the store is an association list from (sublevel, key) to the stored payload, and a
  batch applies its operations in order. Input and output failures of the store and
  of the bridge are not modelled.
\<close>

type_synonym store = "((string list \<times> string) \<times> payload) list"

datatype batch_op =
    PutOp "string list" string payload
  | DelOp "string list" string

fun apply_op :: "batch_op \<Rightarrow> store \<Rightarrow> store" where
  "apply_op (PutOp sub k v) s = AList.update (sub, k) v s"
| "apply_op (DelOp sub k) s = AList.delete (sub, k) s"

definition level_batch :: "batch_op list \<Rightarrow> store \<Rightarrow> store" where
  "level_batch ops s = fold apply_op ops s"

definition level_get :: "store \<Rightarrow> string list \<Rightarrow> string \<Rightarrow> error + payload" where
  "level_get s sub k = (case map_of s (sub, k) of None \<Rightarrow> Inl LevelNotFound | Some v \<Rightarrow> Inr v)"

text \<open>
  The collaborators the database imports from files that are not part of the sources
  at hand: \<^verbatim>\<open>createSchema\<close>, the file-format encoder \<^verbatim>\<open>stringifyFile\<close> of \<^verbatim>\<open>./util\<close>,
  the encoder of one field value of an index key, and the index key field separator.
\<close>

record externals =
  createSchema :: "payload \<Rightarrow> error + tina_schema"
  stringifyFile_util :: "payload \<Rightarrow> string \<Rightarrow> bool \<Rightarrow> error + string"
  encodeField :: "index_field \<Rightarrow> jvalue option \<Rightarrow> string"
  INDEX_KEY_FIELD_SEPARATOR :: char

text \<open>
  The state of a \<^verbatim>\<open>Database\<close>: the bridge's files, the store and the three memoized
  fields \<^verbatim>\<open>tinaSchema\<close>, \<^verbatim>\<open>_lookup\<close> and \<^verbatim>\<open>collectionIndexDefinitions\<close>.
\<close>

record database =
  bridge :: "string \<rightharpoonup> string"
  level :: store
  tinaSchema :: "tina_schema option"
  lookup_cache :: "payload option"
  collectionIndexDefinitions :: "(string \<times> index_table) list option"

type_synonym 'a db_result = "(error + 'a) \<times> database"

text \<open>Sequencing of two steps: a throw of the first skips the second.\<close>

definition and_then :: "'a db_result \<Rightarrow> ('a \<Rightarrow> database \<Rightarrow> 'b db_result) \<Rightarrow> 'b db_result" where
  "and_then r k = (case r of (Inl e, db) \<Rightarrow> (Inl e, db) | (Inr x, db) \<Rightarrow> k x db)"

definition generated_path :: "string \<Rightarrow> string" where
  "generated_path file = normalizePath (GENERATED_FOLDER @ ''/'' @ file)"

definition getTinaSchema :: "database \<Rightarrow> payload db_result" where
  "getTinaSchema db = (level_get (level db) [ROOT_PREFIX] (generated_path ''_schema.json''), db)"

definition getSchema :: "externals \<Rightarrow> database \<Rightarrow> tina_schema db_result" where
  "getSchema ext db =
     (case tinaSchema db of
        Some ts \<Rightarrow> (Inr ts, db)
      | None \<Rightarrow>
          and_then (getTinaSchema db)
            (\<lambda>schema db1.
               (case createSchema ext schema of
                  Inl e \<Rightarrow> (Inl e, db1)
                | Inr ts \<Rightarrow> (Inr ts, db1\<lparr>tinaSchema := Some ts\<rparr>))))"

definition getLookup :: "database \<Rightarrow> string \<Rightarrow> jvalue option db_result" where
  "getLookup db returnType =
     (case lookup_cache db of
        Some l \<Rightarrow> (Inr (l returnType), db)
      | None \<Rightarrow>
          (case level_get (level db) [ROOT_PREFIX] (generated_path ''_lookup.json'') of
             Inl e \<Rightarrow> (Inl e, db)
           | Inr l \<Rightarrow> (Inr (l returnType), db\<lparr>lookup_cache := Some l\<rparr>)))"

text \<open>
  \<^verbatim>\<open>
  public clearCache() {
    this.tinaSchema = null
    this._lookup = null
  }
  \<close>
\<close>

definition clearCache :: "database \<Rightarrow> database" where
  "clearCache db = db\<lparr>tinaSchema := None, lookup_cache := None\<rparr>"

definition getIndexDefinitions ::
  "externals \<Rightarrow> database \<Rightarrow> (string \<times> index_table) list option db_result"
where
  "getIndexDefinitions ext db =
     (case collectionIndexDefinitions db of
        Some t \<Rightarrow> (Inr (Some t), db)
      | None \<Rightarrow>
          and_then (getSchema ext db)
            (\<lambda>schema db1.
               (case index_all_collections (getCollections schema)
                       (collectionIndexDefinitions db1) of
                  (Inl e, t) \<Rightarrow> (Inl e, db1\<lparr>collectionIndexDefinitions := t\<rparr>)
                | (Inr u, t) \<Rightarrow> (Inr t, db1\<lparr>collectionIndexDefinitions := t\<rparr>))))"

text \<open>\<^verbatim>\<open>indexDefinitions?.[name]\<close>\<close>

definition definitions_for :: "(string \<times> index_table) list option \<Rightarrow> string \<Rightarrow> index_table option" where
  "definitions_for t name = (case t of None \<Rightarrow> None | Some t' \<Rightarrow> map_of t' name)"

definition collectionForPath :: "externals \<Rightarrow> database \<Rightarrow> string \<Rightarrow> collection option db_result" where
  "collectionForPath ext db filepath =
     and_then (getSchema ext db) (\<lambda>ts db1. (Inr (getCollectionByFullPath ts filepath), db1))"

subsection \<open>Index operations of a document\<close>

text \<open>
  Modelled from the spec: \<^verbatim>\<open>makeIndexOpsForDocument\<close> lives in \<^verbatim>\<open>./datalayer\<close>, which is
  not part of the sources at hand. By the spec a document of a collection has one
  entry in every defined index of the collection, stored under the sublevel
  \<^verbatim>\<open><collection>/<sortKey>\<close> and keyed by the encoded field values, each followed by
  the separator, and then the document path; a put entry holds an empty marker. A
  document without a collection bypasses indexing, and a missing index definition
  for the collection is an error of the write.
\<close>

definition composite_key :: "externals \<Rightarrow> index_definition \<Rightarrow> payload \<Rightarrow> string \<Rightarrow> string" where
  "composite_key ext d data filepath =
     concat (map (\<lambda>f. encodeField ext f (data (idx_name f)) @ [INDEX_KEY_FIELD_SEPARATOR ext])
               (idx_fields d)) @ filepath"

datatype op_type = Put | Del

definition index_op :: "externals \<Rightarrow> op_type \<Rightarrow> string \<Rightarrow> string \<Rightarrow> payload \<Rightarrow>
    string \<times> index_definition \<Rightarrow> batch_op" where
  "index_op ext opType c filepath data sd =
     (case opType of
        Put \<Rightarrow> PutOp [c, fst sd] (composite_key ext (snd sd) data filepath) Map.empty
      | Del \<Rightarrow> DelOp [c, fst sd] (composite_key ext (snd sd) data filepath))"

definition makeIndexOpsForDocument ::
  "externals \<Rightarrow> string \<Rightarrow> string option \<Rightarrow> index_table option \<Rightarrow> payload \<Rightarrow> op_type \<Rightarrow>
   error + batch_op list"
where
  "makeIndexOpsForDocument ext filepath collection indexDefinitions data opType =
     (case collection of
        None \<Rightarrow> Inr []
      | Some c \<Rightarrow>
          (if c = [] then Inr []
           else
             (case indexDefinitions of
                None \<Rightarrow> Inl (JsError (''No indexDefinitions for collection '' @ c))
              | Some defs \<Rightarrow> Inr (map (index_op ext opType c filepath data) defs))))"

subsection \<open>stringifyFile, put, get and delete\<close>

definition find_body_field :: "field_def list \<Rightarrow> field_def option" where
  "find_body_field fs =
     find (\<lambda>f. (field_type f = ''string'' \<or> field_type f = ''rich-text'') \<and> field_isBody f) fs"

text \<open>
  Modelled from the spec: \<^verbatim>\<open>lastItem\<close> lives in \<^verbatim>\<open>../util\<close>, which is not part of the
  sources at hand. The spec takes the last namespace segment of the template with
  it: the last element of the list, \<^verbatim>\<open>undefined\<close> for an empty list.
\<close>

definition lastItem :: "string list \<Rightarrow> string option" where
  "lastItem ns = (if ns = [] then None else Some (last ns))"

text \<open>
  The template that \<^verbatim>\<open>stringifyFile\<close> picks: the only template of an object
  collection; in a union collection the template whose last namespace segment is the
  document's \<^verbatim>\<open>_template\<close>.
\<close>

definition pick_template :: "template_info \<Rightarrow> payload \<Rightarrow> error + template" where
  "pick_template info data =
     (case info of
        ObjectTemplate t \<Rightarrow> Inr t
      | UnionTemplates ts \<Rightarrow>
          (case data ''_template'' of
             None \<Rightarrow>
               Inl (JsError
                 ''Expected _template to be provided for document in an ambiguous collection'')
           | Some v \<Rightarrow>
               (case find (\<lambda>t. map_option JStr (lastItem (template_namespace t)) = Some v) ts of
                  None \<Rightarrow> Inl (JsError ''Unable to determine template'')
                | Some t \<Rightarrow> Inr t)))"

definition is_union :: "template_info \<Rightarrow> bool" where
  "is_union info = (case info of ObjectTemplate t \<Rightarrow> False | UnionTemplates ts \<Rightarrow> True)"

text \<open>
  The payload stored for a document: for the formats \<^verbatim>\<open>md\<close> and \<^verbatim>\<open>mdx\<close> with a body
  field, every property but the body field is copied and the body goes under
  \<^verbatim>\<open>$_body\<close>; otherwise the payload is the document.
\<close>

definition body_payload :: "string option \<Rightarrow> field_def option \<Rightarrow> payload \<Rightarrow> payload" where
  "body_payload format field data =
     (case field of
        None \<Rightarrow> data
      | Some f \<Rightarrow>
          (if format = Some ''md'' \<or> format = Some ''mdx''
           then (data(field_name f := None))(''$_body'' := data (field_name f))
           else data))"

definition stringifyFile ::
  "externals \<Rightarrow> database \<Rightarrow> string \<Rightarrow> payload \<Rightarrow> (string \<times> payload \<times> bool) db_result"
where
  "stringifyFile ext db filepath data =
     (if filepath \<in> set SYSTEM_FILES then
        (Inl (JsError (''Unexpected put for config file '' @ filepath)), db)
      else
        and_then (getSchema ext db)
          (\<lambda>ts db1.
             (case getTemplatesForCollectable ts (getCollectionByFullPath ts filepath) of
                Inl e \<Rightarrow> (Inl e, db1)
              | Inr info \<Rightarrow>
                  (case pick_template info data of
                     Inl e \<Rightarrow> (Inl e, db1)
                   | Inr t \<Rightarrow>
                       (case getCollectionByFullPath ts filepath of
                          None \<Rightarrow>
                            (Inl (JsError
                               ''TypeError: Cannot read properties of undefined (reading format)''),
                             db1)
                        | Some c \<Rightarrow>
                            (let payload =
                                   body_payload (coll_format c)
                                     (find_body_field (template_fields t)) data
                             in case stringifyFile_util ext payload (extname filepath)
                                       (is_union info) of
                                  Inl e \<Rightarrow> (Inl e, db1)
                                | Inr stringifiedFile \<Rightarrow>
                                    (Inr (stringifiedFile, payload, is_union info), db1)))))))"

text \<open>
  The body of the \<^verbatim>\<open>try\<close> block of \<^verbatim>\<open>put\<close>. A record found under the path gives the
  del operations of its stale index entries; the batch holds them first, then the
  put operations of the new entries, then the write of the primary record.
\<close>

definition put_try :: "externals \<Rightarrow> database \<Rightarrow> string \<Rightarrow> payload \<Rightarrow> string option \<Rightarrow> bool db_result" where
  "put_try ext db filepath data collection =
     (if filepath \<in> set SYSTEM_FILES then
        (Inl (JsError (''Unexpected put for config file '' @ filepath)), db)
      else
        and_then
          (if truthy_str collection then
             and_then (getIndexDefinitions ext db)
               (\<lambda>t db1. (Inr (definitions_for t (case collection of None \<Rightarrow> [] | Some c \<Rightarrow> c)), db1))
           else (Inr None, db))
          (\<lambda>collectionIndexDefinitions db1.
             (let normalizedPath = normalizePath filepath in
              and_then (stringifyFile ext db1 filepath data)
                (\<lambda>(stringifiedFile, payload, keep) db2.
                   (let db3 = db2\<lparr>bridge := (bridge db2)(normalizedPath \<mapsto> stringifiedFile)\<rparr> in
                    (case makeIndexOpsForDocument ext normalizedPath collection
                            collectionIndexDefinitions payload Put of
                       Inl e \<Rightarrow> (Inl e, db3)
                     | Inr putOps \<Rightarrow>
                         (case (case map_of (level db3) ([ROOT_PREFIX], normalizedPath) of
                                  None \<Rightarrow> Inr []
                                | Some existingItem \<Rightarrow>
                                    makeIndexOpsForDocument ext normalizedPath collection
                                      collectionIndexDefinitions existingItem Del) of
                            Inl e \<Rightarrow> (Inl e, db3)
                          | Inr delOps \<Rightarrow>
                              (Inr True,
                               db3\<lparr>level :=
                                 level_batch
                                   (delOps @ putOps @ [PutOp [ROOT_PREFIX] normalizedPath payload])
                                   (level db3)\<rparr>))))))))"

definition put :: "externals \<Rightarrow> database \<Rightarrow> string \<Rightarrow> payload \<Rightarrow> string option \<Rightarrow> bool db_result" where
  "put ext db filepath data collection =
     (case put_try ext db filepath data collection of
        (Inl e, db') \<Rightarrow>
          (Inl (TinaFetchError (''Error in PUT for '' @ filepath) e filepath collection), db')
      | (Inr b, db') \<Rightarrow> (Inr b, db'))"

text \<open>
  \<^verbatim>\<open>get\<close>: a path with no record makes the store's \<^verbatim>\<open>get\<close> throw its not-found error.
  A stored payload is an object and so is truthy: the test \<^verbatim>\<open>if (!contentObject)\<close>
  of the source never fires for a record that was read, and has no branch here.
  After the stored data \<^verbatim>\<open>get\<close> spreads five properties over it.
\<close>

definition with_metadata :: "collection \<Rightarrow> template \<Rightarrow> string \<Rightarrow> payload \<Rightarrow> payload" where
  "with_metadata c t filepath data =
     data(''_collection'' \<mapsto> JStr (coll_name c),
          ''_keepTemplateKey'' \<mapsto> JBool (coll_templates c),
          ''_template'' := map_option JStr (lastItem (template_namespace t)),
          ''_relativePath'' \<mapsto> JStr (strip_slashes (remove_first (coll_path c) filepath)),
          ''_id'' \<mapsto> JStr filepath)"

definition restore_body :: "string \<Rightarrow> field_def option \<Rightarrow> payload \<Rightarrow> payload" where
  "restore_body extension field contentObject =
     (case field of
        None \<Rightarrow> contentObject
      | Some f \<Rightarrow>
          (if (extension = ''.md'' \<or> extension = ''.mdx'') \<and> contentObject ''$_body'' \<noteq> None
           then (contentObject(''$_body'' := None))(field_name f := contentObject ''$_body'')
           else contentObject))"

definition template_name_of :: "payload \<Rightarrow> string option" where
  "template_name_of contentObject =
     (case contentObject ''_template'' of Some (JStr s) \<Rightarrow> Some s | _ \<Rightarrow> None)"

definition get :: "externals \<Rightarrow> database \<Rightarrow> string \<Rightarrow> payload db_result" where
  "get ext db filepath =
     (if filepath \<in> set SYSTEM_FILES then
        (Inl (JsError (''Unexpected get for config file '' @ filepath)), db)
      else
        and_then (getSchema ext db)
          (\<lambda>ts db1.
             (case level_get (level db1) [ROOT_PREFIX] (normalizePath filepath) of
                Inl e \<Rightarrow> (Inl e, db1)
              | Inr contentObject \<Rightarrow>
                  (case getCollectionAndTemplateByFullPath ts filepath
                          (template_name_of contentObject) of
                     Inl e \<Rightarrow> (Inl e, db1)
                   | Inr (c, t) \<Rightarrow>
                       (Inr (with_metadata c t filepath
                               (restore_body (extname filepath)
                                  (find_body_field (template_fields t)) contentObject)),
                        db1)))))"

text \<open>
  \<^verbatim>\<open>delete\<close> reads the record under the normalized path, but builds the del operations
  of the index entries from \<^verbatim>\<open>filepath\<close> as it was given.
\<close>

definition delete :: "externals \<Rightarrow> database \<Rightarrow> string \<Rightarrow> unit db_result" where
  "delete ext db filepath =
     and_then (collectionForPath ext db filepath)
       (\<lambda>collection db1.
          and_then
            (case collection of
               None \<Rightarrow> (Inr None, db1)
             | Some c \<Rightarrow>
                 and_then (getIndexDefinitions ext db1)
                   (\<lambda>t db2. (Inr (definitions_for t (coll_name c)), db2)))
            (\<lambda>collectionIndexDefinitions db2.
               (let itemKey = normalizePath filepath in
                (case level_get (level db2) [ROOT_PREFIX] itemKey of
                   Inl e \<Rightarrow> (Inl e, db2)
                 | Inr item \<Rightarrow>
                     (case collection of
                        None \<Rightarrow>
                          (Inl (JsError
                             ''TypeError: Cannot read properties of undefined (reading name)''),
                           db2)
                      | Some c \<Rightarrow>
                          (case makeIndexOpsForDocument ext filepath (Some (coll_name c))
                                  collectionIndexDefinitions item Del of
                             Inl e \<Rightarrow> (Inl e, db2)
                           | Inr ops \<Rightarrow>
                               (Inr (),
                                db2\<lparr>level :=
                                       level_batch (ops @ [DelOp [ROOT_PREFIX] itemKey]) (level db2),
                                     bridge := (bridge db2)(normalizePath filepath := None)\<rparr>)))))))"

subsection \<open>Index entries of a path\<close>

text \<open>
  A key of an index carries the path \<open>p\<close> when it is \<open>p\<close> itself (an index with no
  field) or ends with the separator followed by \<open>p\<close>.
\<close>

definition ends_with :: "string \<Rightarrow> string \<Rightarrow> bool" where
  "ends_with s suf = (length suf \<le> length s \<and> drop (length s - length suf) s = suf)"

definition key_has_path :: "char \<Rightarrow> string \<Rightarrow> string \<Rightarrow> bool" where
  "key_has_path sp p k = (k = p \<or> ends_with k (sp # p))"

definition sublevel_keys :: "store \<Rightarrow> string list \<Rightarrow> string list" where
  "sublevel_keys s sub = map snd (filter (\<lambda>sk. fst sk = sub) (map fst s))"

definition index_entries :: "char \<Rightarrow> store \<Rightarrow> string list \<Rightarrow> string \<Rightarrow> string list" where
  "index_entries sp s sub p = filter (key_has_path sp p) (sublevel_keys s sub)"



section \<open>An example schema and database\<close>

text \<open>
  A collection \<^verbatim>\<open>posts\<close> of markdown files with a string title, a number rank and a
  rich-text body, and a database whose store holds only the generated schema
  record.
\<close>

definition title_field :: field_def where
  "title_field =
     \<lparr>field_name = ''title'', field_type = ''string'', field_indexed = None, field_isBody = False\<rparr>"

definition rank_field :: field_def where
  "rank_field =
     \<lparr>field_name = ''rank'', field_type = ''number'', field_indexed = None, field_isBody = False\<rparr>"

definition body_field :: field_def where
  "body_field =
     \<lparr>field_name = ''body'', field_type = ''rich-text'', field_indexed = None, field_isBody = True\<rparr>"

definition posts :: collection where
  "posts =
     \<lparr>coll_name = ''posts'', coll_path = ''posts'', coll_format = Some ''md'',
      coll_fields = Some [title_field, rank_field, body_field], coll_templates = False,
      coll_indexes = None\<rparr>"

definition posts_template :: template where
  "posts_template =
     \<lparr>template_namespace = [''posts''],
      template_fields = [title_field, rank_field, body_field]\<rparr>"

definition in_posts :: "string \<Rightarrow> bool" where
  "in_posts p = prefix ''posts/'' (normalizePath p)"

definition example_schema :: tina_schema where
  "example_schema =
     \<lparr>getCollections = [posts],
      getCollectionByFullPath = (\<lambda>p. if in_posts p then Some posts else None),
      getTemplatesForCollectable =
        (\<lambda>c. case c of
                None \<Rightarrow> Inl (JsError ''no collection'')
              | Some c' \<Rightarrow> Inr (ObjectTemplate posts_template)),
      getCollectionAndTemplateByFullPath =
        (\<lambda>p tn. if in_posts p then Inr (posts, posts_template)
                 else Inl (JsError ''no collection''))\<rparr>"

text \<open>A string is encoded as it is; the separator is the zero byte.\<close>

definition example_encode :: "index_field \<Rightarrow> jvalue option \<Rightarrow> string" where
  "example_encode f v = (case v of Some (JStr s) \<Rightarrow> s | _ \<Rightarrow> [])"

definition example_ext :: externals where
  "example_ext =
     \<lparr>createSchema = (\<lambda>schema. Inr example_schema),
      stringifyFile_util = (\<lambda>payload extension keep. Inr ''---''),
      encodeField = example_encode,
      INDEX_KEY_FIELD_SEPARATOR = CHR 0x00\<rparr>"

definition example_db :: database where
  "example_db =
     \<lparr>bridge = Map.empty,
      level = [(([ROOT_PREFIX], ''.tina/__generated__/_schema.json''), Map.empty)],
      tinaSchema = None,
      lookup_cache = None,
      collectionIndexDefinitions = None\<rparr>"

definition doc1 :: payload where
  "doc1 = [''title'' \<mapsto> JStr ''Hello'', ''body'' \<mapsto> JStr ''First'']"


definition example_table :: index_table where
  "example_table =
     [(''__filepath__'', \<lparr>idx_fields = []\<rparr>),
      (''title'', field_index title_field),
      (''rank'', field_index rank_field),
      (''body'', field_index body_field)]"

text \<open>The payload stored for a document of \<^verbatim>\<open>posts\<close>: the body is held under \<^verbatim>\<open>$_body\<close>.\<close>

definition stored :: "payload \<Rightarrow> payload" where
  "stored d = body_payload (Some ''md'') (Some body_field) d"

text \<open>The database after \<^verbatim>\<open>put('posts/a.md', doc1, 'posts')\<close> on the example database.\<close>

definition example_db1 :: database where
  "example_db1 =
     \<lparr>bridge = [''posts/a.md'' \<mapsto> ''---''],
      level =
        [(([''~''], ''.tina/__generated__/_schema.json''), Map.empty),
         (([''posts'', ''__filepath__''], ''posts/a.md''), Map.empty),
         (([''posts'', ''title''], ''Hello'' @ CHR 0x00 # ''posts/a.md''), Map.empty),
         (([''posts'', ''rank''], CHR 0x00 # ''posts/a.md''), Map.empty),
         (([''posts'', ''body''], CHR 0x00 # ''posts/a.md''), Map.empty),
         (([''~''], ''posts/a.md''), stored doc1)],
      tinaSchema = Some example_schema,
      lookup_cache = None,
      collectionIndexDefinitions = Some [(''posts'', example_table)]\<rparr>"


text \<open>The same document addressed with a backslash, as a Windows path has it.\<close>

definition backslash_path :: string where
  "backslash_path = ''posts'' @ CHR 0x5C # ''a.md''"

text \<open>
  The database after \<^verbatim>\<open>delete\<close> of the backslash path on \<open>example_db1\<close>: the primary
  record and the bridge file are gone, the four index entries are still there.
\<close>

definition example_db_deleted :: database where
  "example_db_deleted =
     \<lparr>bridge = Map.empty,
      level =
        [(([''~''], ''.tina/__generated__/_schema.json''), Map.empty),
         (([''posts'', ''__filepath__''], ''posts/a.md''), Map.empty),
         (([''posts'', ''title''], ''Hello'' @ CHR 0x00 # ''posts/a.md''), Map.empty),
         (([''posts'', ''rank''], CHR 0x00 # ''posts/a.md''), Map.empty),
         (([''posts'', ''body''], CHR 0x00 # ''posts/a.md''), Map.empty)],
      tinaSchema = Some example_schema,
      lookup_cache = None,
      collectionIndexDefinitions = Some [(''posts'', example_table)]\<rparr>"

text \<open>The database after \<^verbatim>\<open>delete\<close> of the normalized path on \<open>example_db1\<close>.\<close>

definition example_db_cleared :: database where
  "example_db_cleared =
     \<lparr>bridge = Map.empty,
      level = [(([''~''], ''.tina/__generated__/_schema.json''), Map.empty)],
      tinaSchema = Some example_schema,
      lookup_cache = None,
      collectionIndexDefinitions = Some [(''posts'', example_table)]\<rparr>"

text \<open>
  A database whose index-definition cache was filled when \<^verbatim>\<open>posts\<close> had no field,
  while the schema now declares three.
\<close>

definition stale_db :: database where
  "stale_db =
     example_db\<lparr>tinaSchema := Some example_schema,
                collectionIndexDefinitions :=
                  Some [(''posts'', [(DEFAULT_COLLECTION_SORT_KEY, \<lparr>idx_fields = []\<rparr>)])]\<rparr>"

section \<open>Properties of the query engine\<close>

subsection \<open>Effective limit\<close>

text \<open>
  Claim C5 as stated (the effective limit is \<^verbatim>\<open>first ?? last ?? 50\<close>) fails for a
  supplied \<^verbatim>\<open>first\<close> of 0: the code tests \<^verbatim>\<open>first\<close> for truthiness, so 0 counts as
  not supplied and the limit is 50, where \<^verbatim>\<open>first ?? last ?? 50\<close> is 0.
\<close>

theorem query_limit_zero_counterexample:
  "query_limit (Some 0) None \<noteq> spec_limit (Some 0) None"
  by (simp add: query_limit_def spec_limit_def)

lemma iterate_unlimited:
  "\<forall>kv \<in> set items. \<exists>r. admit kv = Inr r \<Longrightarrow>
   \<exists>st'. iterate admit (- 1) rv items st = Inr st' \<and>
         edges st' = edges st @ admitted admit items \<and>
         hasNextPage st' = hasNextPage st \<and>
         hasPreviousPage st' = hasPreviousPage st"
proof (induction items arbitrary: st)
  case Nil
  then show ?case by simp
next
  case (Cons kv rest)
  from Cons.prems obtain r where r: "admit kv = Inr r" by auto
  have rest: "\<forall>kv \<in> set rest. \<exists>r. admit kv = Inr r" using Cons.prems by simp
  show ?case
  proof (cases r)
    case None
    with r Cons.IH [OF rest, of st] show ?thesis by simp
  next
    case (Some filepath)
    let ?st = "st\<lparr>startKey := (if startKey st \<noteq> [] then startKey st else fst kv),
                   endKey := fst kv,
                   edges := edges st @ [(fst kv, filepath)]\<rparr>"
    from Cons.IH [OF rest, of ?st] r Some show ?thesis by simp
  qed
qed

text \<open>
  Claim C5, amended: the effective limit is \<^verbatim>\<open>first\<close> when \<^verbatim>\<open>first\<close> is supplied and
  not 0, otherwise \<^verbatim>\<open>last\<close> when \<^verbatim>\<open>last\<close> is supplied and not 0, otherwise 50. A limit
  of -1 is unlimited: when no candidate lookup throws, the loop runs to the end of
  the iterator, every admitted pair becomes an edge, and neither page flag is set.
\<close>

theorem query_limit_truthy:
  "(firstN = Some f \<and> f \<noteq> 0 \<longrightarrow> query_limit firstN lastN = f) \<and>
   ((firstN = None \<or> firstN = Some 0) \<and> lastN = Some l \<and> l \<noteq> 0 \<longrightarrow>
      query_limit firstN lastN = l) \<and>
   ((firstN = None \<or> firstN = Some 0) \<and> (lastN = None \<or> lastN = Some 0) \<longrightarrow>
      query_limit firstN lastN = 50) \<and>
   (query_limit firstN lastN = - 1 \<and> (\<forall>kv \<in> set items. \<exists>r. admit kv = Inr r) \<longrightarrow>
      (\<exists>st'. iterate admit (query_limit firstN lastN) rv items st = Inr st' \<and>
         edges st' = edges st @ admitted admit items \<and>
         hasNextPage st' = hasNextPage st \<and>
         hasPreviousPage st' = hasPreviousPage st))"
  using iterate_unlimited [of items admit rv st]
  by (auto simp: query_limit_def)

text \<open>
  Claim C5, witness: \<^verbatim>\<open>first = -1\<close> gives the limit -1 and a scan of two keys returns
  both with no page flag; \<^verbatim>\<open>first = 0, last = 7\<close> gives 7; \<^verbatim>\<open>last = 0\<close> alone gives 50.
\<close>

theorem query_limit_truthy_witness:
  "query_limit (Some (- 1)) None = - 1 \<and>
   query_limit (Some 0) (Some 7) = 7 \<and>
   query_limit None (Some 0) = 50 \<and>
   (\<exists>st'. iterate (\<lambda>kv. Inr (Some (fst kv))) (query_limit (Some (- 1)) None) False
            [(''k1'', ()), (''k2'', ())] initial_page = Inr st' \<and>
      edges st' = [(''k1'', ''k1''), (''k2'', ''k2'')] \<and>
      hasNextPage st' = False \<and> hasPreviousPage st' = False)"
  using query_limit_truthy [of "Some (- 1)" "- 1" None 0 "[(''k1'', ()), (''k2'', ())]"
      "\<lambda>kv. Inr (Some (fst kv))" False initial_page]
    query_limit_truthy [of "Some 0" 0 "Some 7" 7 "[]" "\<lambda>kv. Inr None" False initial_page]
    query_limit_truthy [of None 0 "Some 0" 0 "[]" "\<lambda>kv. Inr None" False initial_page]
  by (simp add: initial_page_def)

subsection \<open>Iteration bounds\<close>

lemma truthy_str_iff: "truthy_str s = (s \<noteq> None \<and> s \<noteq> Some [])"
  by (cases s) auto

lemma truthy_num_iff: "truthy_num n = (n \<noteq> None \<and> n \<noteq> Some 0)"
  by (cases n) auto

lemma suffix_left_eq:
  "suffix_left fs =
     (case fs of None \<Rightarrow> [] | Some f \<Rightarrow> (case left f of None \<Rightarrow> [] | Some l \<Rightarrow> l))"
  by (simp add: suffix_left_def split: option.splits)

lemma suffix_right_eq:
  "suffix_right fs =
     (case fs of None \<Rightarrow> [CHR 0xFF]
      | Some f \<Rightarrow> (case right f of None \<Rightarrow> [CHR 0xFF] | Some r \<Rightarrow> r @ [CHR 0xFF]))"
  by (simp add: suffix_right_def split: option.splits)

lemma prefix_bounds_fields:
  "gt (prefix_bounds fs q) = gt q"
  "lt (prefix_bounds fs q) = lt q"
  "reverse (prefix_bounds fs q) = reverse q"
  "gte q = None \<Longrightarrow> gte (prefix_bounds fs q) =
     (if truthy_str (gt q) then None else Some (suffix_left fs))"
  "lte q = None \<Longrightarrow> lte (prefix_bounds fs q) =
     (if truthy_str (lt q) then None else Some (suffix_right fs))"
  by (simp_all add: prefix_bounds_def Let_def)

lemma cursor_bounds_fields:
  "gt (cursor_bounds atob after before q) =
     (if truthy_str after then map_option atob after else gt q)"
  "lt (cursor_bounds atob after before q) =
     (if \<not> truthy_str after \<and> truthy_str before then map_option atob before else lt q)"
  "gte (cursor_bounds atob after before q) = gte q"
  "lte (cursor_bounds atob after before q) = lte q"
  "reverse (cursor_bounds atob after before q) = reverse q"
  by (simp_all add: cursor_bounds_def)

text \<open>
  Claim C6 as stated (the upper bound \<^verbatim>\<open>lt\<close> is the decoded \<^verbatim>\<open>before\<close> cursor whenever
  \<^verbatim>\<open>before\<close> is provided, whether or not \<^verbatim>\<open>after\<close> is) fails when both cursors are
  supplied: the code reads \<^verbatim>\<open>before\<close> only in the \<^verbatim>\<open>else\<close> branch of the test of
  \<^verbatim>\<open>after\<close>, so \<^verbatim>\<open>lt\<close> stays unset.
\<close>

theorem both_cursors_counterexample:
  "lt (query_bounds id (Some ''YQ=='') (Some ''Yg=='') None None) \<noteq> Some (id ''Yg=='')"
  by (simp add: query_bounds_def cursor_bounds_def prefix_bounds_def)

text \<open>
  Claim C6, amended: \<^verbatim>\<open>gt\<close> is the decoded \<^verbatim>\<open>after\<close> cursor whenever a non-empty
  \<^verbatim>\<open>after\<close> is provided, and then \<^verbatim>\<open>lt\<close> is unset whatever \<^verbatim>\<open>before\<close> is; \<^verbatim>\<open>lt\<close> is the
  decoded \<^verbatim>\<open>before\<close> cursor when a non-empty \<^verbatim>\<open>before\<close> is provided and \<^verbatim>\<open>after\<close> is
  not. A bound not set from a cursor (or set to the empty string) falls back:
  \<^verbatim>\<open>gte\<close> is the left filter prefix (or empty), \<^verbatim>\<open>lte\<close> is the right filter prefix
  followed by the max byte (or the max byte alone).
\<close>

theorem query_bounds_cursors:
  assumes "q = query_bounds atob after before lastN fs"
  shows "(after = Some a \<and> a \<noteq> [] \<longrightarrow> gt q = Some (atob a) \<and> lt q = None) \<and>
     ((after = None \<or> after = Some []) \<and> before = Some b \<and> b \<noteq> [] \<longrightarrow>
        lt q = Some (atob b) \<and> gt q = None) \<and>
     ((after = None \<or> after = Some []) \<and> (before = None \<or> before = Some []) \<longrightarrow>
        gt q = None \<and> lt q = None) \<and>
     gte q = (if gt q = None \<or> gt q = Some [] then
                Some (case fs of None \<Rightarrow> []
                      | Some f \<Rightarrow> (case left f of None \<Rightarrow> [] | Some l \<Rightarrow> l))
              else None) \<and>
     lte q = (if lt q = None \<or> lt q = Some [] then
                Some (case fs of None \<Rightarrow> [CHR 0xFF]
                      | Some f \<Rightarrow> (case right f of None \<Rightarrow> [CHR 0xFF] | Some r \<Rightarrow> r @ [CHR 0xFF]))
              else None) \<and>
     reverse q = (lastN \<noteq> None \<and> lastN \<noteq> Some 0)"
proof -
  have g: "gt q = (if truthy_str after then map_option atob after else None)"
    and l: "lt q = (if \<not> truthy_str after \<and> truthy_str before then map_option atob before else None)"
    and r: "reverse q = truthy_num lastN"
    by (simp_all add: assms query_bounds_def prefix_bounds_fields cursor_bounds_fields)
  have ge: "gte q = (if truthy_str (gt q) then None else Some (suffix_left fs))"
    and le: "lte q = (if truthy_str (lt q) then None else Some (suffix_right fs))"
    by (simp_all add: assms query_bounds_def prefix_bounds_fields cursor_bounds_fields)
  have 1: "after = Some a \<and> a \<noteq> [] \<longrightarrow> gt q = Some (atob a) \<and> lt q = None"
    by (simp add: g l)
  have 2: "(after = None \<or> after = Some []) \<and> before = Some b \<and> b \<noteq> [] \<longrightarrow>
        lt q = Some (atob b) \<and> gt q = None"
    by (auto simp: g l truthy_str_iff)
  have 3: "(after = None \<or> after = Some []) \<and> (before = None \<or> before = Some []) \<longrightarrow>
        gt q = None \<and> lt q = None"
    by (auto simp: g l truthy_str_iff)
  have 4: "gte q = (if gt q = None \<or> gt q = Some [] then
                Some (case fs of None \<Rightarrow> []
                      | Some f \<Rightarrow> (case left f of None \<Rightarrow> [] | Some l \<Rightarrow> l))
              else None)"
    unfolding ge suffix_left_eq truthy_str_iff by simp
  have 5: "lte q = (if lt q = None \<or> lt q = Some [] then
                Some (case fs of None \<Rightarrow> [CHR 0xFF]
                      | Some f \<Rightarrow> (case right f of None \<Rightarrow> [CHR 0xFF] | Some r \<Rightarrow> r @ [CHR 0xFF]))
              else None)"
    unfolding le suffix_right_eq truthy_str_iff by simp
  have 6: "reverse q = (lastN \<noteq> None \<and> lastN \<noteq> Some 0)"
    by (simp add: r truthy_num_iff)
  from 1 2 3 4 5 6 show ?thesis by blast
qed

text \<open>
  Claim C6, witness: with the cursors \<^verbatim>\<open>ab\<close> and \<^verbatim>\<open>cd\<close> (list reversal standing for the
  decoder) both supplied, \<^verbatim>\<open>gt\<close> is the decoded \<^verbatim>\<open>after\<close> and \<^verbatim>\<open>lte\<close> is the max byte;
  with \<^verbatim>\<open>before\<close> alone, \<^verbatim>\<open>lt\<close> is the decoded \<^verbatim>\<open>before\<close> and \<^verbatim>\<open>gte\<close> is empty.
\<close>

theorem query_bounds_cursors_witness:
  "gt (query_bounds rev (Some ''ab'') (Some ''cd'') None None) = Some ''ba'' \<and>
   lt (query_bounds rev (Some ''ab'') (Some ''cd'') None None) = None \<and>
   lte (query_bounds rev (Some ''ab'') (Some ''cd'') None None) = Some [CHR 0xFF] \<and>
   gte (query_bounds rev (Some ''ab'') (Some ''cd'') None None) = None \<and>
   lt (query_bounds rev None (Some ''cd'') None None) = Some ''dc'' \<and>
   gte (query_bounds rev None (Some ''cd'') None None) = Some []"
  using query_bounds_cursors [of "query_bounds rev (Some ''ab'') (Some ''cd'') None None"
      rev "Some ''ab''" "Some ''cd''" None None "''ab''" "''cd''"]
    query_bounds_cursors [of "query_bounds rev None (Some ''cd'') None None"
      rev None "Some ''cd''" None None "''ab''" "''cd''"]
  by simp

subsection \<open>Hydration failures\<close>

lemma sequential_first_failure:
  "\<forall>x \<in> set xs. \<exists>y. f x = Inr y \<Longrightarrow> f z = Inl e \<Longrightarrow> sequential f (xs @ z # zs) = Inl e"
  by (induction xs) auto

text \<open>
  Claim C8 as stated (a failure on a path that names a generated config file is
  rethrown unadorned) fails for the generated schema record: the code exempts only
  paths that include \<^verbatim>\<open>.tina/__generated__/_graphql.json\<close>, so an \<^verbatim>\<open>Error\<close> thrown for
  \<^verbatim>\<open>.tina/__generated__/_schema.json\<close> is wrapped.
\<close>

theorem hydration_schema_file_counterexample:
  "names_generated_config_file ''.tina/__generated__/_schema.json'' \<and>
   hydrate_edge id (\<lambda>p. Inl (JsError ''boom'') :: error + unit) ''posts''
     (''k'', ''.tina/__generated__/_schema.json'') \<noteq> Inl (JsError ''boom'')"
  by (simp add: names_generated_config_file_def generated_config_files_def hydrate_edge_def)

text \<open>
  Claim C8, amended: the first edge whose hydrator call throws ends the hydration. Its
  error is raised wrapped as a query error carrying the edge's path and the
  collection name when the thrown value is an \<^verbatim>\<open>Error\<close> and the path does not
  include \<^verbatim>\<open>.tina/__generated__/_graphql.json\<close>; a thrown value that is not an
  \<^verbatim>\<open>Error\<close>, or any failure on a path including that file name, is rethrown
  unadorned.
\<close>

theorem hydration_failure_wrapping:
  assumes "hydrator path = Inl err"
    and "\<forall>e \<in> set before. \<exists>n. hydrator (snd e) = Inr n"
  shows "(instanceof_Error err \<and> \<not> str_includes path ''.tina/__generated__/_graphql.json'' \<longrightarrow>
            hydrate_edges btoa hydrator collection (before @ (cursor, path) # rest) =
              Inl (TinaQueryError err path collection)) \<and>
         (\<not> instanceof_Error err \<or> str_includes path ''.tina/__generated__/_graphql.json'' \<longrightarrow>
            hydrate_edges btoa hydrator collection (before @ (cursor, path) # rest) = Inl err)"
proof -
  have ok: "\<forall>e \<in> set before. \<exists>y. hydrate_edge btoa hydrator collection e = Inr y"
    using assms(2) by (auto simp: hydrate_edge_def)
  have here: "hydrate_edge btoa hydrator collection (cursor, path) =
      (if instanceof_Error err \<and> \<not> str_includes path ''.tina/__generated__/_graphql.json''
       then Inl (TinaQueryError err path collection) else Inl err)"
    using assms(1) by (simp add: hydrate_edge_def)
  show ?thesis
    unfolding hydrate_edges_def
    using sequential_first_failure [OF ok, of "(cursor, path)" _ rest] here
    by (simp split: if_splits)
qed

text \<open>
  Claim C8, witness: three runs whose second edge fails, with an \<^verbatim>\<open>Error\<close> on a
  document path (wrapped), with a thrown value that is not an \<^verbatim>\<open>Error\<close> (unadorned)
  and with an \<^verbatim>\<open>Error\<close> on the generated GraphQL record (unadorned).
\<close>

theorem hydration_failure_wrapping_witness:
  "hydrate_edges id (\<lambda>p. if p = ''posts/a.md'' then Inr () else Inl (JsError ''boom'')) ''posts''
     [(''k1'', ''posts/a.md''), (''k2'', ''posts/b.md''), (''k3'', ''posts/c.md'')] =
     Inl (TinaQueryError (JsError ''boom'') ''posts/b.md'' ''posts'') \<and>
   hydrate_edges id (\<lambda>p. if p = ''posts/a.md'' then Inr () else Inl (ThrownValue ''boom'')) ''posts''
     [(''k1'', ''posts/a.md''), (''k2'', ''posts/b.md'')] = Inl (ThrownValue ''boom'') \<and>
   hydrate_edges id (\<lambda>p. if p = ''posts/a.md'' then Inr () else Inl (JsError ''boom'')) ''posts''
     [(''k1'', ''posts/a.md''), (''k2'', ''.tina/__generated__/_graphql.json'')] =
     Inl (JsError ''boom'')"
  using hydration_failure_wrapping [of "\<lambda>p. if p = ''posts/a.md'' then Inr () else Inl (JsError ''boom'')"
      "''posts/b.md''" "JsError ''boom''" "[(''k1'', ''posts/a.md'')]" id "''posts''" "''k2''"
      "[(''k3'', ''posts/c.md'')]"]
    hydration_failure_wrapping [of "\<lambda>p. if p = ''posts/a.md'' then Inr () else Inl (ThrownValue ''boom'')"
      "''posts/b.md''" "ThrownValue ''boom''" "[(''k1'', ''posts/a.md'')]" id "''posts''" "''k2''" "[]"]
    hydration_failure_wrapping [of "\<lambda>p. if p = ''posts/a.md'' then Inr () else Inl (JsError ''boom'')"
      "''.tina/__generated__/_graphql.json''" "JsError ''boom''" "[(''k1'', ''posts/a.md'')]" id
      "''posts''" "''k2''" "[]"]
  by simp

section \<open>Properties of status reporting\<close>

text \<open>
  Claim C4 as stated (no run emits both \<^verbatim>\<open>complete\<close> and \<^verbatim>\<open>failed\<close>) fails when the
  status callback itself throws on \<^verbatim>\<open>complete\<close>: the call sits inside the \<^verbatim>\<open>try\<close>
  block, so the \<^verbatim>\<open>catch\<close> block then emits \<^verbatim>\<open>failed\<close> although the body succeeded.
\<close>

theorem callback_failure_counterexample:
  "ok_body () = (Inr (), ()) \<and>
   fst (snd (indexStatusCallbackWrapper callback_failing_on_complete ok_body ([], ()))) =
     [Inprogress, Complete, Failed (JsError ''status endpoint unreachable'')]"
  by (simp add: indexStatusCallbackWrapper_def emit_def run_body_def
      callback_failing_on_complete_def ok_body_def)

text \<open>
  Claim C4, amended: provided the status callback itself never throws, each of the
  three long-running operations emits \<^verbatim>\<open>inprogress\<close> before the body runs (the body
  starts in the world the callback left). When the body throws, the events of the
  run are exactly \<^verbatim>\<open>inprogress, failed\<close> with the body's error, and the operation
  rethrows that same error. When the body succeeds, the events of the run are
  exactly \<^verbatim>\<open>inprogress, complete\<close>; \<^verbatim>\<open>indexContent\<close> then returns, and the two
  incremental operations run their final flush, which emits nothing and whose
  outcome is the outcome of the operation. So no run emits both \<^verbatim>\<open>complete\<close> and
  \<^verbatim>\<open>failed\<close>.
\<close>

theorem status_events:
  assumes cb: "\<forall>ev w'. fst (cb ev w') = Inr ()"
    and w1: "w1 = snd (cb Inprogress w)"
    and body: "fn w1 = (r, w2)"
  shows "indexStatusCallbackWrapper cb fn (tr, w) =
           (case r of
              Inr u \<Rightarrow> (Inr (), (tr @ [Inprogress, Complete], snd (cb Complete w2)))
            | Inl e \<Rightarrow> (Inl e, (tr @ [Inprogress, Failed e], snd (cb (Failed e) w2)))) \<and>
         indexContent cb fn (tr, w) = indexStatusCallbackWrapper cb fn (tr, w) \<and>
         fst (snd (indexContentByPaths cb fn flush (tr, w))) =
           fst (snd (indexStatusCallbackWrapper cb fn (tr, w))) \<and>
         fst (snd (deleteContentByPaths cb fn flush (tr, w))) =
           fst (snd (indexStatusCallbackWrapper cb fn (tr, w))) \<and>
         indexContentByPaths cb fn flush (tr, w) =
           (case r of
              Inr u \<Rightarrow>
                (fst (flush (snd (cb Complete w2))),
                 (tr @ [Inprogress, Complete], snd (flush (snd (cb Complete w2)))))
            | Inl e \<Rightarrow> (Inl e, (tr @ [Inprogress, Failed e], snd (cb (Failed e) w2)))) \<and>
         deleteContentByPaths cb fn flush (tr, w) =
           (case r of
              Inr u \<Rightarrow>
                (fst (flush (snd (cb Complete w2))),
                 (tr @ [Inprogress, Complete], snd (flush (snd (cb Complete w2)))))
            | Inl e \<Rightarrow> (Inl e, (tr @ [Inprogress, Failed e], snd (cb (Failed e) w2))))"
proof -
  have em: "\<And>ev s. emit cb ev s = (Inr (), (fst s @ [ev], snd (cb ev (snd s))))"
    using cb by (simp add: emit_def split: prod.splits) (metis fst_conv)
  have 1: "indexStatusCallbackWrapper cb fn (tr, w) =
           (case r of
              Inr u \<Rightarrow> (Inr (), (tr @ [Inprogress, Complete], snd (cb Complete w2)))
            | Inl e \<Rightarrow> (Inl e, (tr @ [Inprogress, Failed e], snd (cb (Failed e) w2))))"
    using w1 body by (cases r) (simp_all add: indexStatusCallbackWrapper_def em run_body_def)
  have 2: "indexContent cb fn (tr, w) = indexStatusCallbackWrapper cb fn (tr, w)"
    by (simp add: indexContent_def)
  have 5: "indexContentByPaths cb fn flush (tr, w) =
           (case r of
              Inr u \<Rightarrow>
                (fst (flush (snd (cb Complete w2))),
                 (tr @ [Inprogress, Complete], snd (flush (snd (cb Complete w2)))))
            | Inl e \<Rightarrow> (Inl e, (tr @ [Inprogress, Failed e], snd (cb (Failed e) w2))))"
    unfolding indexContentByPaths_def 1
    by (cases r) (simp_all add: run_body_def split: prod.splits)
  have 6: "deleteContentByPaths cb fn flush (tr, w) =
           (case r of
              Inr u \<Rightarrow>
                (fst (flush (snd (cb Complete w2))),
                 (tr @ [Inprogress, Complete], snd (flush (snd (cb Complete w2)))))
            | Inl e \<Rightarrow> (Inl e, (tr @ [Inprogress, Failed e], snd (cb (Failed e) w2))))"
    unfolding deleteContentByPaths_def 1
    by (cases r) (simp_all add: run_body_def split: prod.splits)
  have 3: "fst (snd (indexContentByPaths cb fn flush (tr, w))) =
           fst (snd (indexStatusCallbackWrapper cb fn (tr, w)))"
    unfolding 5 1 by (cases r) simp_all
  have 4: "fst (snd (deleteContentByPaths cb fn flush (tr, w))) =
           fst (snd (indexStatusCallbackWrapper cb fn (tr, w)))"
    unfolding 6 1 by (cases r) simp_all
  show ?thesis by (intro conjI 1 2 3 4 5 6)
qed

text \<open>
  Claim C4, witness: with a callback that never throws, a body that succeeds gives
  the events \<^verbatim>\<open>inprogress, complete\<close>, and a body that throws gives
  \<^verbatim>\<open>inprogress, failed\<close> and its own error back, from the wrapper and from each of
  the three operations.
\<close>

theorem status_events_witness:
  "indexStatusCallbackWrapper quiet_callback ok_body ([], ()) =
     (Inr (), ([Inprogress, Complete], ())) \<and>
   indexStatusCallbackWrapper quiet_callback failing_body ([], ()) =
     (Inl (JsError ''Unable to seed''), ([Inprogress, Failed (JsError ''Unable to seed'')], ())) \<and>
   indexContent quiet_callback failing_body ([], ()) =
     (Inl (JsError ''Unable to seed''), ([Inprogress, Failed (JsError ''Unable to seed'')], ())) \<and>
   indexContentByPaths quiet_callback failing_body ok_body ([], ()) =
     (Inl (JsError ''Unable to seed''), ([Inprogress, Failed (JsError ''Unable to seed'')], ())) \<and>
   deleteContentByPaths quiet_callback failing_body ok_body ([], ()) =
     (Inl (JsError ''Unable to seed''), ([Inprogress, Failed (JsError ''Unable to seed'')], ())) \<and>
   indexContentByPaths quiet_callback ok_body ok_body ([], ()) =
     (Inr (), ([Inprogress, Complete], ())) \<and>
   deleteContentByPaths quiet_callback ok_body ok_body ([], ()) =
     (Inr (), ([Inprogress, Complete], ()))"
  using status_events [of quiet_callback "()" "()" ok_body "Inr ()" "()" "[]" ok_body]
    status_events [of quiet_callback "()" "()" failing_body "Inl (JsError ''Unable to seed'')" "()" "[]" ok_body]
  by (simp add: quiet_callback_def ok_body_def failing_body_def)

section \<open>Properties of the index definitions and the caches\<close>

subsection \<open>The example database\<close>

lemma posts_indexes:
  "collection_indexes posts = Inr example_table"
  by (simp add: collection_indexes_def posts_def add_field_indexes_def field_skipped_def
      title_field_def rank_field_def body_field_def DEFAULT_COLLECTION_SORT_KEY_def
      example_table_def field_index_def)

lemma example_getSchema:
  "getSchema example_ext example_db = (Inr example_schema, example_db\<lparr>tinaSchema := Some example_schema\<rparr>)"
  by (simp add: getSchema_def example_db_def getTinaSchema_def level_get_def generated_path_def
      GENERATED_FOLDER_def normalizePath_def ROOT_PREFIX_def and_then_def example_ext_def)

lemma example_index_definitions:
  "getIndexDefinitions example_ext example_db =
     (Inr (Some [(''posts'', example_table)]),
      example_db\<lparr>tinaSchema := Some example_schema,
        collectionIndexDefinitions := Some [(''posts'', example_table)]\<rparr>)"
  unfolding getIndexDefinitions_def example_getSchema and_then_def
  by (simp add: example_db_def example_schema_def posts_indexes) (simp add: posts_def)

subsection \<open>Which fields get an index\<close>

lemma add_field_indexes_snoc:
  "add_field_indexes (fs @ [f]) t =
     (if field_skipped f then add_field_indexes fs t
      else AList.update (field_name f) (field_index f) (add_field_indexes fs t))"
  by (simp add: add_field_indexes_def)

lemma add_field_indexes_keys:
  "fst ` set (add_field_indexes fs t) =
     fst ` set t \<union> {field_name f |f. f \<in> set fs \<and> \<not> field_skipped f}"
proof (induction fs rule: rev_induct)
  case Nil
  show ?case by (simp add: add_field_indexes_def)
next
  case (snoc f fs)
  show ?case
    unfolding add_field_indexes_snoc using snoc.IH
    by (auto simp: AList.dom_update)
qed

lemma add_field_indexes_other:
  "k \<notin> {field_name f |f. f \<in> set fs \<and> \<not> field_skipped f} \<Longrightarrow>
   map_of (add_field_indexes fs t) k = map_of t k"
proof (induction fs rule: rev_induct)
  case Nil
  show ?case by (simp add: add_field_indexes_def)
next
  case (snoc f fs)
  then show ?case
    unfolding add_field_indexes_snoc
    by (auto simp: AList.update_conv')
qed

lemma add_field_indexes_field:
  "distinct (map field_name fs) \<Longrightarrow> f \<in> set fs \<Longrightarrow> \<not> field_skipped f \<Longrightarrow>
   map_of (add_field_indexes fs t) (field_name f) = Some (field_index f)"
proof (induction fs rule: rev_induct)
  case Nil
  then show ?case by simp
next
  case (snoc g fs)
  show ?case
  proof (cases "f = g")
    case True
    with snoc.prems show ?thesis
      unfolding add_field_indexes_snoc by (simp add: AList.update_conv')
  next
    case False
    with snoc.prems have mem: "f \<in> set fs" and d: "distinct (map field_name fs)"
      and ne: "field_name g \<noteq> field_name f"
      by auto
    from snoc.IH [OF d mem snoc.prems(3)] ne show ?thesis
      unfolding add_field_indexes_snoc by (simp add: AList.update_conv')
  qed
qed

lemma add_declared_indexes_keys:
  "add_declared_indexes flds ixs t = Inr t' \<Longrightarrow>
   fst ` set t' = fst ` set t \<union> index_name ` set ixs"
proof (induction ixs arbitrary: t)
  case Nil
  then show ?case by simp
next
  case (Cons ix ixs)
  from Cons.prems obtain d where d: "declared_index flds ix = Inr d"
    and r: "add_declared_indexes flds ixs (AList.update (index_name ix) d t) = Inr t'"
    by (auto split: sum.splits)
  from Cons.IH [OF r] show ?case by (auto simp: AList.dom_update)
qed

lemma add_declared_indexes_other:
  "add_declared_indexes flds ixs t = Inr t' \<Longrightarrow> k \<notin> index_name ` set ixs \<Longrightarrow>
   map_of t' k = map_of t k"
proof (induction ixs arbitrary: t)
  case Nil
  then show ?case by simp
next
  case (Cons ix ixs)
  from Cons.prems obtain d where d: "declared_index flds ix = Inr d"
    and r: "add_declared_indexes flds ixs (AList.update (index_name ix) d t) = Inr t'"
    by (auto split: sum.splits)
  from Cons.IH [OF r] Cons.prems(2) show ?case by (simp add: AList.update_conv')
qed

lemma index_all_collections_other:
  "index_all_collections cs T0 = (Inr (), T) \<Longrightarrow> n \<notin> coll_name ` set cs \<Longrightarrow>
   definitions_for T n = definitions_for T0 n"
proof (induction cs arbitrary: T0)
  case Nil
  then show ?case by simp
next
  case (Cons c cs)
  from Cons.prems(1) obtain defs where defs: "collection_indexes c = Inr defs"
    and r: "index_all_collections cs
              (Some (AList.update (coll_name c) defs (case T0 of None \<Rightarrow> [] | Some t' \<Rightarrow> t'))) =
            (Inr (), T)"
    by (auto split: sum.splits)
  from Cons.IH [OF r] Cons.prems(2) show ?case
    by (cases T0) (simp_all add: definitions_for_def AList.update_conv')
qed

lemma index_all_collections_member:
  "index_all_collections cs T0 = (Inr (), T) \<Longrightarrow> c \<in> set cs \<Longrightarrow>
   distinct (map coll_name cs) \<Longrightarrow>
   \<exists>t. collection_indexes c = Inr t \<and> definitions_for T (coll_name c) = Some t"
proof (induction cs arbitrary: T0)
  case Nil
  then show ?case by simp
next
  case (Cons c' cs)
  from Cons.prems(1) obtain defs where defs: "collection_indexes c' = Inr defs"
    and r: "index_all_collections cs
              (Some (AList.update (coll_name c') defs (case T0 of None \<Rightarrow> [] | Some t' \<Rightarrow> t'))) =
            (Inr (), T)"
    by (auto split: sum.splits)
  show ?case
  proof (cases "c \<in> set cs")
    case True
    with Cons.IH [OF r] Cons.prems(3) show ?thesis by simp
  next
    case False
    with Cons.prems(2) have eq: "c = c'" by simp
    from Cons.prems(3) have "coll_name c' \<notin> coll_name ` set cs" by simp
    from index_all_collections_other [OF r this] defs eq show ?thesis
      by (simp add: definitions_for_def AList.update_conv')
  qed
qed

lemma collection_indexes_shape:
  assumes "collection_indexes c = Inr t"
  shows "add_declared_indexes (coll_fields c) (declared_of c)
           (add_field_indexes (fields_of c) [(DEFAULT_COLLECTION_SORT_KEY, \<lparr>idx_fields = []\<rparr>)]) = Inr t"
  using assms
  by (cases "coll_fields c"; cases "coll_indexes c")
     (simp_all add: collection_indexes_def fields_of_def declared_of_def add_field_indexes_def)

lemma declared_index_ok:
  "flds \<noteq> None \<or> index_field_names ix = [] \<Longrightarrow> \<exists>d. declared_index flds ix = Inr d"
  by (cases flds) (auto simp: declared_index_def)

lemma add_declared_indexes_ok:
  "flds = None \<longrightarrow> (\<forall>ix \<in> set ixs. index_field_names ix = []) \<Longrightarrow>
   \<exists>t'. add_declared_indexes flds ixs t = Inr t'"
proof (induction ixs arbitrary: t)
  case Nil
  show ?case by simp
next
  case (Cons ix ixs)
  from Cons.prems have "flds \<noteq> None \<or> index_field_names ix = []" by auto
  from declared_index_ok [OF this] obtain d where d: "declared_index flds ix = Inr d" by blast
  from Cons.prems have "flds = None \<longrightarrow> (\<forall>ix \<in> set ixs. index_field_names ix = [])" by simp
  from Cons.IH [OF this, of "AList.update (index_name ix) d t"] d show ?case by simp
qed

lemma collection_indexes_ok:
  assumes "coll_fields c = None \<longrightarrow> (\<forall>ix \<in> set (declared_of c). index_field_names ix = [])"
  shows "\<exists>t. collection_indexes c = Inr t"
proof (cases "coll_indexes c")
  case None
  then show ?thesis by (simp add: collection_indexes_def Let_def)
next
  case (Some ixs)
  with assms have "coll_fields c = None \<longrightarrow> (\<forall>ix \<in> set ixs. index_field_names ix = [])"
    by (simp add: declared_of_def)
  from add_declared_indexes_ok [OF this] Some show ?thesis
    by (simp add: collection_indexes_def Let_def)
qed

lemma index_all_collections_ok:
  "\<forall>c \<in> set cs. \<exists>t. collection_indexes c = Inr t \<Longrightarrow>
   \<exists>T. index_all_collections cs T0 = (Inr (), T)"
proof (induction cs arbitrary: T0)
  case Nil
  show ?case by simp
next
  case (Cons c cs)
  from Cons.prems obtain t where t: "collection_indexes c = Inr t" by auto
  from Cons.prems have "\<forall>c \<in> set cs. \<exists>t. collection_indexes c = Inr t" by simp
  from Cons.IH [OF this] t show ?case by simp
qed

text \<open>
  Claim C3 as stated (fields of type rich-text are skipped) fails: the loop of
  \<^verbatim>\<open>getIndexDefinitions\<close> skips a field only when \<^verbatim>\<open>indexed\<close> is false or the type is
  \<^verbatim>\<open>object\<close>, so the rich-text body of \<^verbatim>\<open>posts\<close> gets a single-column index.
\<close>

theorem rich_text_indexed_counterexample:
  "field_type body_field = ''rich-text'' \<and>
   (case fst (getIndexDefinitions example_ext example_db) of
      Inl e \<Rightarrow> None
    | Inr t \<Rightarrow> (case definitions_for t ''posts'' of None \<Rightarrow> None | Some defs \<Rightarrow> map_of defs ''body'')) =
     Some (field_index body_field)"
  by (simp add: example_index_definitions definitions_for_def example_table_def)
     (simp add: body_field_def)

text \<open>
  Claim C3, amended: let \<^verbatim>\<open>getIndexDefinitions\<close> build the tables, that is, let no
  table be memoized yet and the schema load, let the collection names be distinct,
  and let no collection declare an index with fields while it has no field list
  (the lookup of the field types would throw). Then the build succeeds and is
  memoized, and the table of every collection has exactly these names: the default
  \<^verbatim>\<open>__filepath__\<close>, the name of every field that is neither of type \<^verbatim>\<open>object\<close> nor
  marked \<^verbatim>\<open>indexed = false\<close> (rich-text fields included), and the names of the
  declared indexes. Such a field has the single-column index named after it,
  provided the field names of the collection are distinct and no declared index
  has the field's name; the default index has no field, provided no field and no
  declared index is named \<^verbatim>\<open>__filepath__\<close>.
\<close>

theorem field_indexes:
  assumes cache: "collectionIndexDefinitions db = None"
    and schema: "getSchema ext db = (Inr ts, db1)"
    and ok: "\<forall>c' \<in> set (getCollections ts).
               coll_fields c' = None \<longrightarrow> (\<forall>ix \<in> set (declared_of c'). index_field_names ix = [])"
    and names: "distinct (map coll_name (getCollections ts))"
    and c: "c \<in> set (getCollections ts)"
  shows "\<exists>T t. getIndexDefinitions ext db = (Inr T, db1\<lparr>collectionIndexDefinitions := T\<rparr>) \<and>
           definitions_for T (coll_name c) = Some t \<and>
           fst ` set t =
             {DEFAULT_COLLECTION_SORT_KEY} \<union>
             {field_name f |f. f \<in> set (fields_of c) \<and> field_indexed f \<noteq> Some False \<and>
                field_type f \<noteq> ''object''} \<union>
             index_name ` set (declared_of c) \<and>
           (\<forall>f \<in> set (fields_of c).
              field_indexed f \<noteq> Some False \<and> field_type f \<noteq> ''object'' \<and>
              distinct (map field_name (fields_of c)) \<and>
              field_name f \<notin> index_name ` set (declared_of c) \<longrightarrow>
                map_of t (field_name f) = Some (field_index f)) \<and>
           (DEFAULT_COLLECTION_SORT_KEY \<notin> field_name ` set (fields_of c) \<union>
              index_name ` set (declared_of c) \<longrightarrow>
              map_of t DEFAULT_COLLECTION_SORT_KEY = Some \<lparr>idx_fields = []\<rparr>)"
proof -
  have db1: "collectionIndexDefinitions db1 = None"
    using schema cache
    by (auto simp: getSchema_def getTinaSchema_def and_then_def split: option.splits sum.splits)
  have "\<forall>c' \<in> set (getCollections ts). \<exists>t. collection_indexes c' = Inr t"
    using ok collection_indexes_ok by blast
  from index_all_collections_ok [OF this, of None]
  obtain T where all: "index_all_collections (getCollections ts) None = (Inr (), T)" by blast
  have built: "getIndexDefinitions ext db = (Inr T, db1\<lparr>collectionIndexDefinitions := T\<rparr>)"
    using cache schema db1 all by (simp add: getIndexDefinitions_def and_then_def)
  from index_all_collections_member [OF all c names]
  obtain t where t: "collection_indexes c = Inr t"
    and T: "definitions_for T (coll_name c) = Some t"
    by blast
  let ?t0 = "[(DEFAULT_COLLECTION_SORT_KEY, \<lparr>idx_fields = []\<rparr>)]"
  let ?t1 = "add_field_indexes (fields_of c) ?t0"
  note shape = collection_indexes_shape [OF t]
  have keys: "fst ` set t =
             {DEFAULT_COLLECTION_SORT_KEY} \<union>
             {field_name f |f. f \<in> set (fields_of c) \<and> field_indexed f \<noteq> Some False \<and>
                field_type f \<noteq> ''object''} \<union>
             index_name ` set (declared_of c)"
    unfolding add_declared_indexes_keys [OF shape] add_field_indexes_keys
    by (simp add: field_skipped_def)
  have single: "map_of t (field_name f) = Some (field_index f)"
    if "f \<in> set (fields_of c)" "field_indexed f \<noteq> Some False" "field_type f \<noteq> ''object''"
      "distinct (map field_name (fields_of c))"
      "field_name f \<notin> index_name ` set (declared_of c)" for f
  proof -
    have "map_of t (field_name f) = map_of ?t1 (field_name f)"
      using add_declared_indexes_other [OF shape that(5)] .
    also have "\<dots> = Some (field_index f)"
      using add_field_indexes_field [OF that(4) that(1)] that(2,3)
      by (simp add: field_skipped_def)
    finally show ?thesis .
  qed
  have dflt: "map_of t DEFAULT_COLLECTION_SORT_KEY = Some \<lparr>idx_fields = []\<rparr>"
    if "DEFAULT_COLLECTION_SORT_KEY \<notin> field_name ` set (fields_of c) \<union>
              index_name ` set (declared_of c)"
  proof -
    from that have a: "DEFAULT_COLLECTION_SORT_KEY \<notin> index_name ` set (declared_of c)"
      and b: "DEFAULT_COLLECTION_SORT_KEY \<notin>
                {field_name f |f. f \<in> set (fields_of c) \<and> \<not> field_skipped f}"
      by auto
    have "map_of t DEFAULT_COLLECTION_SORT_KEY = map_of ?t1 DEFAULT_COLLECTION_SORT_KEY"
      using add_declared_indexes_other [OF shape a] .
    also have "\<dots> = map_of ?t0 DEFAULT_COLLECTION_SORT_KEY"
      using add_field_indexes_other [OF b] .
    finally show ?thesis by simp
  qed
  from built T keys single dflt show ?thesis by blast
qed

text \<open>
  Claim C3, witness: the table built for \<^verbatim>\<open>posts\<close> in the example database has the
  default index with no field and a single-column index for each of the three
  fields, the rich-text body among them.
\<close>

theorem field_indexes_witness:
  "getIndexDefinitions example_ext example_db =
     (Inr (Some [(''posts'', example_table)]),
      example_db\<lparr>tinaSchema := Some example_schema,
        collectionIndexDefinitions := Some [(''posts'', example_table)]\<rparr>) \<and>
   definitions_for (Some [(''posts'', example_table)]) ''posts'' = Some example_table \<and>
   fst ` set example_table = {''__filepath__'', ''title'', ''rank'', ''body''} \<and>
   map_of example_table ''title'' = Some (field_index title_field) \<and>
   map_of example_table ''body'' = Some (field_index body_field) \<and>
   map_of example_table ''__filepath__'' = Some \<lparr>idx_fields = []\<rparr>"
  using field_indexes [of example_db example_ext example_schema
      "example_db\<lparr>tinaSchema := Some example_schema\<rparr>" posts]
    example_getSchema example_index_definitions
  by (simp add: example_db_def example_schema_def definitions_for_def example_table_def
      posts_def declared_of_def)

subsection \<open>clearCache\<close>

text \<open>
  Claim C2 as stated (\<^verbatim>\<open>clearCache\<close> invalidates the index-definition cache too, so that
  the next \<^verbatim>\<open>getIndexDefinitions\<close> rebuilds the tables from the schema) fails:
  \<^verbatim>\<open>clearCache\<close> resets \<^verbatim>\<open>tinaSchema\<close> and \<^verbatim>\<open>_lookup\<close> only, so the memoized table
  comes back, here one that lacks the indexes of the fields the schema declares.
\<close>

theorem stale_index_definitions_counterexample:
  "fst (getIndexDefinitions example_ext (clearCache stale_db)) =
     Inr (Some [(''posts'', [(''__filepath__'', \<lparr>idx_fields = []\<rparr>)])]) \<and>
   fst (getIndexDefinitions example_ext (clearCache stale_db)) \<noteq>
     Inr (snd (index_all_collections (getCollections example_schema) None))"
  by (simp add: getIndexDefinitions_def clearCache_def stale_db_def example_db_def
      example_schema_def posts_indexes DEFAULT_COLLECTION_SORT_KEY_def)
     (simp add: example_table_def)

text \<open>
  Claim C2, amended: \<^verbatim>\<open>clearCache\<close> invalidates the schema cache and the lookup-map
  cache, and nothing else: the store, the bridge and the index-definition cache are
  as before. After it \<^verbatim>\<open>getSchema\<close> and \<^verbatim>\<open>getLookup\<close> read the store again, while
  \<^verbatim>\<open>getIndexDefinitions\<close> returns the table memoized earlier, when there is one.
\<close>

theorem clearCache_effect:
  "tinaSchema (clearCache db) = None \<and>
   lookup_cache (clearCache db) = None \<and>
   collectionIndexDefinitions (clearCache db) = collectionIndexDefinitions db \<and>
   level (clearCache db) = level db \<and>
   bridge (clearCache db) = bridge db \<and>
   (collectionIndexDefinitions db = Some t \<longrightarrow>
      getIndexDefinitions ext (clearCache db) = (Inr (Some t), clearCache db)) \<and>
   (level_get (level db) [ROOT_PREFIX] (generated_path ''_schema.json'') = Inr schema \<and>
    createSchema ext schema = Inr ts \<longrightarrow>
      getSchema ext (clearCache db) = (Inr ts, (clearCache db)\<lparr>tinaSchema := Some ts\<rparr>)) \<and>
   (level_get (level db) [ROOT_PREFIX] (generated_path ''_lookup.json'') = Inr l \<longrightarrow>
      getLookup (clearCache db) returnType =
        (Inr (l returnType), (clearCache db)\<lparr>lookup_cache := Some l\<rparr>))"
  by (simp add: clearCache_def getIndexDefinitions_def getSchema_def getTinaSchema_def
      getLookup_def and_then_def)

text \<open>
  Claim C2, witness: on the database with the stale table, \<^verbatim>\<open>clearCache\<close> empties the
  schema cache, \<^verbatim>\<open>getIndexDefinitions\<close> still returns the stale table, and
  \<^verbatim>\<open>getSchema\<close> loads the schema from the store again.
\<close>

theorem clearCache_effect_witness:
  "tinaSchema (clearCache stale_db) = None \<and>
   getIndexDefinitions example_ext (clearCache stale_db) =
     (Inr (Some [(''posts'', [(''__filepath__'', \<lparr>idx_fields = []\<rparr>)])]), clearCache stale_db) \<and>
   getSchema example_ext (clearCache stale_db) =
     (Inr example_schema, (clearCache stale_db)\<lparr>tinaSchema := Some example_schema\<rparr>)"
  using clearCache_effect [of stale_db
      "[(''posts'', [(''__filepath__'', \<lparr>idx_fields = []\<rparr>)])]" example_ext Map.empty
      example_schema Map.empty "''x''"]
  by (simp add: stale_db_def example_db_def level_get_def generated_path_def
      GENERATED_FOLDER_def normalizePath_def ROOT_PREFIX_def example_ext_def
      DEFAULT_COLLECTION_SORT_KEY_def)

section \<open>Properties of get, put and delete\<close>

subsection \<open>The reserved system files\<close>

text \<open>
  Claim C10: for a file path that is one of the reserved names \<^verbatim>\<open>_schema\<close>,
  \<^verbatim>\<open>_graphql\<close> and \<^verbatim>\<open>_lookup\<close>, \<^verbatim>\<open>get\<close>, \<^verbatim>\<open>stringifyFile\<close> and \<^verbatim>\<open>put\<close> raise an
  error and leave the whole database state (store, bridge and caches) as it was;
  the error of \<^verbatim>\<open>put\<close> is the write-path fetch error wrapping the original one.
\<close>

theorem system_files_rejected:
  assumes "filepath \<in> set SYSTEM_FILES"
  shows "get ext db filepath =
           (Inl (JsError (''Unexpected get for config file '' @ filepath)), db) \<and>
         stringifyFile ext db filepath data =
           (Inl (JsError (''Unexpected put for config file '' @ filepath)), db) \<and>
         put ext db filepath data collection =
           (Inl (TinaFetchError (''Error in PUT for '' @ filepath)
                   (JsError (''Unexpected put for config file '' @ filepath)) filepath collection),
            db)"
  using assms by (simp add: get_def stringifyFile_def put_def put_try_def)

text \<open>
  Claim C10, witness: the three operations on \<^verbatim>\<open>_schema\<close> in the example database.
\<close>

theorem system_files_rejected_witness:
  "get example_ext example_db ''_schema'' =
     (Inl (JsError ''Unexpected get for config file _schema''), example_db) \<and>
   stringifyFile example_ext example_db ''_schema'' doc1 =
     (Inl (JsError ''Unexpected put for config file _schema''), example_db) \<and>
   put example_ext example_db ''_schema'' doc1 (Some ''posts'') =
     (Inl (TinaFetchError ''Error in PUT for _schema''
             (JsError ''Unexpected put for config file _schema'') ''_schema'' (Some ''posts'')),
      example_db)"
  using system_files_rejected [of "''_schema''" example_ext example_db doc1 "Some ''posts''"]
  by (simp add: SYSTEM_FILES_def)

subsection \<open>What a successful put has done\<close>



lemma getSchema_cached:
  "tinaSchema db = Some ts \<Longrightarrow> getSchema ext db = (Inr ts, db)"
  by (simp add: getSchema_def)





lemma level_batch_append: "level_batch (xs @ ys) s = level_batch ys (level_batch xs s)"
  by (simp add: level_batch_def)





subsection \<open>The example puts\<close>

lemma example_stringify:
  assumes "tinaSchema db = Some example_schema" and "in_posts p" and "p \<notin> set SYSTEM_FILES"
  shows "stringifyFile example_ext db p d = (Inr (''---'', stored d, False), db)"
  using assms
  by (simp add: stringifyFile_def getSchema_def and_then_def example_schema_def pick_template_def
      posts_def posts_template_def find_body_field_def title_field_def rank_field_def
      body_field_def stored_def example_ext_def is_union_def)

lemma in_posts_a: "in_posts ''posts/a.md''"
  by (simp add: in_posts_def normalizePath_def)

lemmas example_key_defs =
  makeIndexOpsForDocument_def ROOT_PREFIX_def example_table_def index_op_def level_batch_def
  composite_key_def field_index_def title_field_def rank_field_def body_field_def
  example_ext_def example_encode_def stored_def body_payload_def



lemma in_posts_backslash: "in_posts backslash_path"
  by (simp add: in_posts_def normalizePath_def backslash_path_def)

lemma normalize_backslash: "normalizePath backslash_path = ''posts/a.md''"
  by (simp add: normalizePath_def backslash_path_def)

lemma example_put_backslash:
  "put example_ext example_db backslash_path doc1 (Some ''posts'') = (Inr True, example_db1)"
proof -
  have sys: "backslash_path \<notin> set SYSTEM_FILES"
    by (simp add: SYSTEM_FILES_def backslash_path_def)
  show ?thesis
    unfolding put_def put_try_def
    apply (simp add: sys example_index_definitions and_then_def definitions_for_def
        example_stringify in_posts_backslash Let_def normalize_backslash)
    apply (simp add: example_key_defs example_db_def doc1_def example_db1_def)
    done
qed

lemma example_delete_backslash:
  "delete example_ext example_db1 backslash_path = (Inr (), example_db_deleted)"
proof -
  have ts: "tinaSchema example_db1 = Some example_schema" by (simp add: example_db1_def)
  have gi: "getIndexDefinitions example_ext example_db1 =
      (Inr (Some [(''posts'', example_table)]), example_db1)"
    by (simp add: getIndexDefinitions_def example_db1_def)
  have cf: "collectionForPath example_ext example_db1 backslash_path = (Inr (Some posts), example_db1)"
    by (simp add: collectionForPath_def getSchema_cached [OF ts] and_then_def example_schema_def
        in_posts_backslash)
  show ?thesis
    unfolding delete_def cf
    apply (simp add: and_then_def gi definitions_for_def Let_def normalize_backslash posts_def)
    apply (simp add: level_get_def example_db1_def ROOT_PREFIX_def)
    apply (simp add: example_key_defs backslash_path_def example_db_deleted_def example_db1_def
        doc1_def normalizePath_def)
    done
qed

subsection \<open>Round trip of put and get\<close>





subsection \<open>Overwriting a document\<close>

lemma delete_dom: "fst ` set (AList.delete k al) = fst ` set al - {k}"
proof -
  have "fst ` set (AList.delete k al) = set (map fst (AList.delete k al))" by simp
  also have "\<dots> = set (removeAll k (map fst al))" by (simp only: AList.delete_keys)
  also have "\<dots> = fst ` set al - {k}" by simp
  finally show ?thesis .
qed

lemma apply_op_keys:
  "fst ` set (apply_op op s) =
     (case op of
        PutOp sub k v \<Rightarrow> insert (sub, k) (fst ` set s)
      | DelOp sub k \<Rightarrow> fst ` set s - {(sub, k)})"
  by (cases op) (simp_all add: AList.dom_update delete_dom)















lemma definitions_for_None [simp]: "definitions_for None c = None"
  by (simp add: definitions_for_def)









subsection \<open>Deleting a document\<close>

lemma example_delete_normalized:
  "delete example_ext example_db1 ''posts/a.md'' = (Inr (), example_db_cleared)"
proof -
  have ts: "tinaSchema example_db1 = Some example_schema" by (simp add: example_db1_def)
  have gi: "getIndexDefinitions example_ext example_db1 =
      (Inr (Some [(''posts'', example_table)]), example_db1)"
    by (simp add: getIndexDefinitions_def example_db1_def)
  have cf: "collectionForPath example_ext example_db1 ''posts/a.md'' = (Inr (Some posts), example_db1)"
    by (simp add: collectionForPath_def getSchema_cached [OF ts] and_then_def example_schema_def
        in_posts_a)
  have np: "normalizePath ''posts/a.md'' = ''posts/a.md''"
    by (simp add: normalizePath_def)
  show ?thesis
    unfolding delete_def cf
    apply (simp add: and_then_def gi definitions_for_def Let_def np posts_def)
    apply (simp add: level_get_def example_db1_def ROOT_PREFIX_def)
    apply (simp add: example_key_defs example_db_cleared_def example_db1_def doc1_def
        normalizePath_def)
    done
qed

text \<open>
  Claim C7 (after \<^verbatim>\<open>delete(p)\<close> no index entry of the collection carries \<open>p\<close>) does
  not hold of the code for a path written with a backslash. \<^verbatim>\<open>put\<close> keys the index
  entries by the normalized path; \<^verbatim>\<open>delete\<close> reads and deletes the primary record
  under the normalized path but builds the del operations of the index entries from
  the path as given, so they address keys that do not exist: the primary record
  and the bridge file go, the index entries stay. Given the normalized path,
  \<^verbatim>\<open>delete\<close> removes the index entries as well.
\<close>

theorem delete_backslash_path_leaves_entries:
  "put example_ext example_db backslash_path doc1 (Some ''posts'') = (Inr True, example_db1) \<and>
   map_of (level example_db1) ([ROOT_PREFIX], normalizePath backslash_path) = Some (stored doc1) \<and>
   delete example_ext example_db1 backslash_path = (Inr (), example_db_deleted) \<and>
   map_of (level example_db_deleted) ([ROOT_PREFIX], normalizePath backslash_path) = None \<and>
   index_entries (CHR 0x00) (level example_db_deleted) [''posts'', ''title'']
     (normalizePath backslash_path) = [''Hello'' @ CHR 0x00 # ''posts/a.md''] \<and>
   index_entries (CHR 0x00) (level example_db_deleted) [''posts'', ''__filepath__'']
     (normalizePath backslash_path) = [''posts/a.md''] \<and>
   delete example_ext example_db1 ''posts/a.md'' = (Inr (), example_db_cleared) \<and>
   index_entries (CHR 0x00) (level example_db_cleared) [''posts'', ''title''] ''posts/a.md'' = []"
  by (simp add: example_put_backslash example_delete_backslash normalize_backslash
        example_delete_normalized)
     (simp add: example_db1_def example_db_deleted_def example_db_cleared_def ROOT_PREFIX_def
        index_entries_def sublevel_keys_def key_has_path_def ends_with_def)

end
